theory Spec2Isabelle
  imports Main
begin

section \<open>The network connector: data model\<close>

text \<open>
  The connector receives a message (subject, payload) from the bus, decodes the payload
  into an \<open>Event\<close>, validates it, runs the handler named by the subject against the
  EC2 service and publishes the outcome on \<open>subject.done\<close> or \<open>subject.error\<close>.
  Go strings and byte slices are byte sequences, here \<open>string\<close>.

  The source holds two revisions of the worker. The one modelled here is the
  self-contained one, whose \<open>eventHandler\<close> calls \<open>Process\<close>, \<open>Validate\<close>, the
  handler of the action, and \<open>Error\<close> or \<open>Complete\<close>, all of them methods of the
  event file; the other revision hands the same steps to a library.
\<close>

type_synonym bytes = string

text \<open>
  Go \<open>error\<close> values. The five package-level errors of the event file are distinct
  values; \<open>NotSupported\<close> is \<open>errors.New(ev.subject + " not supported")\<close>;
  \<open>UnmarshalTypeError\<close> is what the decoder reports for a JSON value of the wrong
  kind; \<open>LibError\<close> is any other error handed back by the JSON library or the EC2
  service, with its message.
\<close>

datatype error =
    ErrDatacenterIDInvalid
  | ErrDatacenterRegionInvalid
  | ErrDatacenterCredentialsInvalid
  | ErrNetworkSubnetInvalid
  | ErrNetworkAWSIDInvalid
  | NotSupported string
  | UnmarshalTypeError string string
  | LibError string

fun Error_msg :: "error \<Rightarrow> string" where
  "Error_msg ErrDatacenterIDInvalid = ''Datacenter VPC ID invalid''"
| "Error_msg ErrDatacenterRegionInvalid = ''Datacenter Region invalid''"
| "Error_msg ErrDatacenterCredentialsInvalid = ''Datacenter credentials invalid''"
| "Error_msg ErrNetworkSubnetInvalid = ''Network subnet invalid''"
| "Error_msg ErrNetworkAWSIDInvalid = ''Network aws id invalid''"
| "Error_msg (NotSupported subj) = subj @ '' not supported''"
| "Error_msg (UnmarshalTypeError kind ty) =
     ''json: cannot unmarshal '' @ kind @ '' into Go value of type '' @ ty"
| "Error_msg (LibError m) = m"

text \<open>The struct \<open>Event\<close>; \<open>subject\<close> and \<open>body\<close> are its two unexported fields.\<close>

record Event =
  UUID :: string
  BatchID :: string
  ProviderType :: string
  DatacenterRegion :: string
  DatacenterAccessKey :: string
  DatacenterAccessToken :: string
  VPCID :: string
  NetworkAWSID :: string
  Name :: string
  Subnet :: string
  IsPublic :: bool
  AvailabilityZone :: string
  ErrorMessage :: string
  subject :: string
  body :: bytes

text \<open>\<open>New\<close>: the zero value of the struct with subject and body set.\<close>

definition New :: "string \<Rightarrow> bytes \<Rightarrow> Event" where
  "New subj b =
     \<lparr> UUID = '''', BatchID = '''', ProviderType = '''', DatacenterRegion = '''',
       DatacenterAccessKey = '''', DatacenterAccessToken = '''', VPCID = '''',
       NetworkAWSID = '''', Name = '''', Subnet = '''', IsPublic = False,
       AvailabilityZone = '''', ErrorMessage = '''', subject = subj, body = b \<rparr>"

subsection \<open>Validate\<close>

text \<open>\<open>Validate\<close> returns \<open>nil\<close> (\<open>None\<close>) or the first failing check's error.\<close>

definition Validate :: "Event \<Rightarrow> error option" where
  "Validate ev =
     (if VPCID ev = '''' then Some ErrDatacenterIDInvalid
      else if DatacenterRegion ev = '''' then Some ErrDatacenterRegionInvalid
      else if DatacenterAccessKey ev = '''' \<or> DatacenterAccessToken ev = ''''
        then Some ErrDatacenterCredentialsInvalid
      else if subject ev = ''network.delete.aws''
        then (if NetworkAWSID ev = '''' then Some ErrNetworkAWSIDInvalid else None)
      else (if Subnet ev = '''' then Some ErrNetworkSubnetInvalid else None))"

subsection \<open>The JSON library and the struct tags\<close>

text \<open>
  \<open>encoding/json\<close> is a library outside the repository. Its syntax layer is a
  parameter of the model: \<open>json_parse\<close> reads bytes into a JSON value or fails with a
  syntax error, \<open>json_render\<close> writes a JSON value as bytes (or fails, as the signature
  of \<open>json.Marshal\<close> allows), and \<open>json_fold\<close> is the library's case-insensitive
  comparison of a field name with an object key. What the struct tags of \<open>Event\<close> fix
  is modelled concretely: the field names, their order, and \<open>omitempty\<close> on
  \<open>network_aws_id\<close> and \<open>error_message\<close>.
\<close>

datatype json =
    JNull
  | JBool bool
  | JString string
  | JNumber string
  | JArray "json list"
  | JObject "(string \<times> json) list"

record codec =
  json_parse :: "bytes \<Rightarrow> error + json"
  json_render :: "json \<Rightarrow> error + bytes"
  json_fold :: "string \<Rightarrow> string \<Rightarrow> bool"

text \<open>The exported fields in declaration order, with their JSON names.\<close>

definition field_names :: "string list" where
  "field_names =
     [''_uuid'', ''_batch_id'', ''_type'', ''datacenter_region'', ''datacenter_secret'',
      ''datacenter_token'', ''vpc_id'', ''network_aws_id'', ''name'', ''range'',
      ''is_public'', ''availability_zone'', ''error_message'']"

text \<open>
  \<open>json_fields ev\<close> is the object \<open>json.Marshal\<close> writes for \<open>ev\<close>: every exported field
  in declaration order, the two \<open>omitempty\<close> fields left out when empty.
\<close>

definition json_fields :: "Event \<Rightarrow> (string \<times> json) list" where
  "json_fields ev =
     [(''_uuid'', JString (UUID ev)),
      (''_batch_id'', JString (BatchID ev)),
      (''_type'', JString (ProviderType ev)),
      (''datacenter_region'', JString (DatacenterRegion ev)),
      (''datacenter_secret'', JString (DatacenterAccessKey ev)),
      (''datacenter_token'', JString (DatacenterAccessToken ev)),
      (''vpc_id'', JString (VPCID ev))]
     @ (if NetworkAWSID ev = '''' then [] else [(''network_aws_id'', JString (NetworkAWSID ev))])
     @ [(''name'', JString (Name ev)),
        (''range'', JString (Subnet ev)),
        (''is_public'', JBool (IsPublic ev)),
        (''availability_zone'', JString (AvailabilityZone ev))]
     @ (if ErrorMessage ev = '''' then [] else [(''error_message'', JString (ErrorMessage ev))])"

definition Marshal :: "codec \<Rightarrow> Event \<Rightarrow> error + bytes" where
  "Marshal js ev = json_render js (JObject (json_fields ev))"

text \<open>
  Decoding an object key: the field whose name equals the key, else the first field
  whose name matches it under the library's case folding, else none (the value is
  skipped).
\<close>

definition find_field :: "codec \<Rightarrow> string \<Rightarrow> string option" where
  "find_field js key =
     (if key \<in> set field_names then Some key
      else List.find (\<lambda>f. json_fold js f key) field_names)"

text \<open>The JSON kind of a value, as the decoder's type error names it.\<close>

fun json_kind :: "json \<Rightarrow> string" where
  "json_kind JNull = ''null''"
| "json_kind (JBool _) = ''bool''"
| "json_kind (JString _) = ''string''"
| "json_kind (JNumber _) = ''number''"
| "json_kind (JArray _) = ''array''"
| "json_kind (JObject _) = ''object''"

text \<open>
  Storing a value into the field named \<open>f\<close>. \<open>null\<close> leaves a string or bool field as
  it is; a value of the wrong kind is a type error and leaves the field as it is.
\<close>

definition set_string :: "string \<Rightarrow> string \<Rightarrow> Event \<Rightarrow> Event" where
  "set_string f s ev =
     (if f = ''_uuid'' then ev\<lparr>UUID := s\<rparr>
      else if f = ''_batch_id'' then ev\<lparr>BatchID := s\<rparr>
      else if f = ''_type'' then ev\<lparr>ProviderType := s\<rparr>
      else if f = ''datacenter_region'' then ev\<lparr>DatacenterRegion := s\<rparr>
      else if f = ''datacenter_secret'' then ev\<lparr>DatacenterAccessKey := s\<rparr>
      else if f = ''datacenter_token'' then ev\<lparr>DatacenterAccessToken := s\<rparr>
      else if f = ''vpc_id'' then ev\<lparr>VPCID := s\<rparr>
      else if f = ''network_aws_id'' then ev\<lparr>NetworkAWSID := s\<rparr>
      else if f = ''name'' then ev\<lparr>Name := s\<rparr>
      else if f = ''range'' then ev\<lparr>Subnet := s\<rparr>
      else if f = ''availability_zone'' then ev\<lparr>AvailabilityZone := s\<rparr>
      else if f = ''error_message'' then ev\<lparr>ErrorMessage := s\<rparr>
      else ev)"

definition store :: "string \<Rightarrow> json \<Rightarrow> Event \<Rightarrow> error + Event" where
  "store f v ev =
     (if f = ''is_public'' then
        (case v of
           JBool b \<Rightarrow> Inr (ev\<lparr>IsPublic := b\<rparr>)
         | JNull \<Rightarrow> Inr ev
         | _ \<Rightarrow> Inl (UnmarshalTypeError (json_kind v) ''bool''))
      else
        (case v of
           JString s \<Rightarrow> Inr (set_string f s ev)
         | JNull \<Rightarrow> Inr ev
         | _ \<Rightarrow> Inl (UnmarshalTypeError (json_kind v) ''string'')))"

text \<open>
  The members of an object are decoded in order. The decoder keeps the first type error
  and goes on with the remaining members; the error is returned at the end.
\<close>

fun overlay :: "codec \<Rightarrow> (string \<times> json) list \<Rightarrow> error option \<Rightarrow> Event \<Rightarrow> error option \<times> Event" where
  "overlay js [] saved ev = (saved, ev)"
| "overlay js ((key, v) # kvs) saved ev =
     (case find_field js key of
        None \<Rightarrow> overlay js kvs saved ev
      | Some f \<Rightarrow>
          (case store f v ev of
             Inl e \<Rightarrow> overlay js kvs (if saved = None then Some e else saved) ev
           | Inr ev' \<Rightarrow> overlay js kvs saved ev'))"

text \<open>
  \<open>json.Unmarshal(ev.body, &ev)\<close>: a syntax error fails before anything is stored;
  \<open>null\<close> stores nothing; an object is decoded member by member; any other value is a
  type error for the struct. The result is the error (or \<open>nil\<close>) and the struct as the
  decoder left it.
\<close>

definition Unmarshal :: "codec \<Rightarrow> bytes \<Rightarrow> Event \<Rightarrow> error option \<times> Event" where
  "Unmarshal js b ev =
     (case json_parse js b of
        Inl e \<Rightarrow> (Some e, ev)
      | Inr JNull \<Rightarrow> (None, ev)
      | Inr (JObject kvs) \<Rightarrow> overlay js kvs None ev
      | Inr v \<Rightarrow> (Some (UnmarshalTypeError (json_kind v) ''main.Event''), ev))"

section \<open>The outside world\<close>

text \<open>
  A Go function returns, or panics. The delete handler can also loop for ever, which is
  the value \<open>None\<close> of the functions that contain the loop.
\<close>

datatype 'a outcome = Returned 'a | Panicked string

subsection \<open>The EC2 service\<close>

text \<open>
  The output structs of the SDK, reduced to the fields the code reads. A field or an
  object the SDK hands back as a pointer is an \<open>option\<close>, \<open>None\<close> for \<open>nil\<close>; the
  output struct itself and the elements of a result list are never \<open>nil\<close>.
\<close>

record ec2Subnet =
  SubnetId :: "string option"
  SubnetAvailabilityZone :: "string option"

record InternetGateway =
  InternetGatewayId :: "string option"

record RouteTable =
  RouteTableId :: "string option"

type_synonym NetworkInterface = string

type_synonym Filter = "string \<times> string list"

text \<open>
  The service is any deterministic machine over a state \<open>'c\<close> of its own: each
  operation takes its input and the state, and gives its reply (an error or an output)
  and the next state. Operations whose output the code ignores reply with an error or
  \<open>nil\<close>.
\<close>

record 'c EC2 =
  CreateSubnet :: "string \<Rightarrow> string \<Rightarrow> string \<Rightarrow> 'c \<Rightarrow> (error + ec2Subnet option) \<times> 'c"
  DescribeInternetGateways :: "Filter list \<Rightarrow> 'c \<Rightarrow> (error + InternetGateway list) \<times> 'c"
  CreateInternetGateway :: "'c \<Rightarrow> (error + InternetGateway option) \<times> 'c"
  AttachInternetGateway :: "string option \<Rightarrow> string \<Rightarrow> 'c \<Rightarrow> error option \<times> 'c"
  DescribeRouteTables :: "Filter list \<Rightarrow> 'c \<Rightarrow> (error + RouteTable list) \<times> 'c"
  CreateRouteTable :: "string \<Rightarrow> 'c \<Rightarrow> (error + RouteTable option) \<times> 'c"
  AssociateRouteTable :: "string option \<Rightarrow> string \<Rightarrow> 'c \<Rightarrow> error option \<times> 'c"
  CreateRoute :: "string option \<Rightarrow> string \<Rightarrow> string option \<Rightarrow> 'c \<Rightarrow> error option \<times> 'c"
  ModifySubnetAttribute :: "string option \<Rightarrow> bool \<Rightarrow> 'c \<Rightarrow> error option \<times> 'c"
  DescribeNetworkInterfaces :: "Filter list \<Rightarrow> 'c \<Rightarrow> (error + NetworkInterface list) \<times> 'c"
  DeleteSubnet :: "string \<Rightarrow> 'c \<Rightarrow> error option \<times> 'c"

text \<open>
  What a handler does to the world is kept as a trace: the service operations it invoked,
  with their inputs, and its sleeps (in seconds).
\<close>

datatype effect =
    CreateSubnetCall string string string
  | DescribeInternetGatewaysCall "Filter list"
  | CreateInternetGatewayCall
  | AttachInternetGatewayCall "string option" string
  | DescribeRouteTablesCall "Filter list"
  | CreateRouteTableCall string
  | AssociateRouteTableCall "string option" string
  | CreateRouteCall "string option" string "string option"
  | ModifySubnetAttributeCall "string option" bool
  | DescribeNetworkInterfacesCall "Filter list"
  | DeleteSubnetCall string
  | Sleep nat

text \<open>
  The world: the state of the service, the trace so far, and the messages published on
  the bus so far (topic and payload, in order).
\<close>

record 'c world =
  cloud :: 'c
  calls :: "effect list"
  pubs :: "(string \<times> bytes) list"

text \<open>
  The environment of the program: the JSON library, and \<open>ec2_New\<close>, which opens a
  service client for a region and a pair of static credentials.
\<close>

record 'c env =
  json_lib :: codec
  ec2_New :: "string \<Rightarrow> string \<Rightarrow> string \<Rightarrow> 'c EC2"

definition invoke :: "effect \<Rightarrow> ('c \<Rightarrow> 'r \<times> 'c) \<Rightarrow> 'c world \<Rightarrow> 'r \<times> 'c world" where
  "invoke e f w =
     (case f (cloud w) of (r, c') \<Rightarrow> (r, w\<lparr>cloud := c', calls := calls w @ [e]\<rparr>))"

definition time_Sleep :: "nat \<Rightarrow> 'c world \<Rightarrow> 'c world" where
  "time_Sleep secs w = w\<lparr>calls := calls w @ [Sleep secs]\<rparr>"

definition Publish :: "string \<Rightarrow> bytes \<Rightarrow> 'c world \<Rightarrow> 'c world" where
  "Publish topic data w = w\<lparr>pubs := pubs w @ [(topic, data)]\<rparr>"

section \<open>The event's methods\<close>

subsection \<open>Process, Error, Complete\<close>

definition Process :: "codec \<Rightarrow> Event \<Rightarrow> 'c world \<Rightarrow> (error option \<times> Event) \<times> 'c world" where
  "Process js ev w =
     (case Unmarshal js (body ev) ev of
        (Some e, ev') \<Rightarrow> ((Some e, ev'), Publish (subject ev' @ ''.error'') (body ev') w)
      | (None, ev') \<Rightarrow> ((None, ev'), w))"

text \<open>
  \<open>Error\<close> sets the message, serializes, and panics (\<open>log.Panic\<close>) when serializing
  fails; only then does it publish. Log output is not part of the model.
\<close>

definition Error :: "codec \<Rightarrow> error \<Rightarrow> Event \<Rightarrow> 'c world \<Rightarrow> Event outcome \<times> 'c world" where
  "Error js err ev w =
     (let ev' = ev\<lparr>ErrorMessage := Error_msg err\<rparr> in
      case Marshal js ev' of
        Inl e \<Rightarrow> (Panicked (Error_msg e), w)
      | Inr data \<Rightarrow> (Returned ev', Publish (subject ev' @ ''.error'') data w))"

text \<open>
  \<open>Complete\<close> serializes; when that fails it calls \<open>Error\<close> and then goes on to publish
  the (\<open>nil\<close>) data on the done topic.
\<close>

definition Complete :: "codec \<Rightarrow> Event \<Rightarrow> 'c world \<Rightarrow> Event outcome \<times> 'c world" where
  "Complete js ev w =
     (case Marshal js ev of
        Inl e \<Rightarrow>
          (case Error js e ev w of
             (Panicked p, w') \<Rightarrow> (Panicked p, w')
           | (Returned ev', w') \<Rightarrow> (Returned ev', Publish (subject ev' @ ''.done'') [] w'))
      | Inr data \<Rightarrow> (Returned ev, Publish (subject ev @ ''.done'') data w))"

subsection \<open>Create and its helpers\<close>

definition internetGatewayByVPCID ::
  "'c EC2 \<Rightarrow> string \<Rightarrow> 'c world \<Rightarrow> (error + InternetGateway option) \<times> 'c world" where
  "internetGatewayByVPCID svc vpc w =
     (let f = [(''attachment.vpc-id'', [vpc])] in
      case invoke (DescribeInternetGatewaysCall f) (DescribeInternetGateways svc f) w of
        (Inl e, w1) \<Rightarrow> (Inl e, w1)
      | (Inr gws, w1) \<Rightarrow>
          (if length gws = 0 then (Inr None, w1) else (Inr (Some (gws ! 0)), w1)))"

definition routingTableBySubnetID ::
  "'c EC2 \<Rightarrow> string \<Rightarrow> 'c world \<Rightarrow> (error + RouteTable option) \<times> 'c world" where
  "routingTableBySubnetID svc subnet w =
     (let f = [(''association.subnet-id'', [subnet])] in
      case invoke (DescribeRouteTablesCall f) (DescribeRouteTables svc f) w of
        (Inl e, w1) \<Rightarrow> (Inl e, w1)
      | (Inr rts, w1) \<Rightarrow>
          (if length rts = 0 then (Inr None, w1) else (Inr (Some (rts ! 0)), w1)))"

text \<open>
  \<open>createInternetGateway\<close> reuses the gateway found, or creates one and attaches it.
  Reading \<open>resp.InternetGateway.InternetGatewayId\<close> panics when the service replied
  without a gateway.
\<close>

definition createInternetGateway ::
  "'c EC2 \<Rightarrow> string \<Rightarrow> 'c world \<Rightarrow> (error + InternetGateway) outcome \<times> 'c world" where
  "createInternetGateway svc vpc w =
     (case internetGatewayByVPCID svc vpc w of
        (Inl e, w1) \<Rightarrow> (Returned (Inl e), w1)
      | (Inr (Some ig), w1) \<Rightarrow> (Returned (Inr ig), w1)
      | (Inr None, w1) \<Rightarrow>
          (case invoke CreateInternetGatewayCall (CreateInternetGateway svc) w1 of
             (Inl e, w2) \<Rightarrow> (Returned (Inl e), w2)
           | (Inr None, w2) \<Rightarrow> (Panicked ''nil pointer dereference'', w2)
           | (Inr (Some gw), w2) \<Rightarrow>
               (case invoke (AttachInternetGatewayCall (InternetGatewayId gw) vpc)
                            (AttachInternetGateway svc (InternetGatewayId gw) vpc) w2 of
                  (Some e, w3) \<Rightarrow> (Returned (Inl e), w3)
                | (None, w3) \<Rightarrow> (Returned (Inr gw), w3))))"

definition createRouteTable ::
  "'c EC2 \<Rightarrow> string \<Rightarrow> string \<Rightarrow> 'c world \<Rightarrow> (error + RouteTable) outcome \<times> 'c world" where
  "createRouteTable svc vpc subnet w =
     (case routingTableBySubnetID svc subnet w of
        (Inl e, w1) \<Rightarrow> (Returned (Inl e), w1)
      | (Inr (Some rt), w1) \<Rightarrow> (Returned (Inr rt), w1)
      | (Inr None, w1) \<Rightarrow>
          (case invoke (CreateRouteTableCall vpc) (CreateRouteTable svc vpc) w1 of
             (Inl e, w2) \<Rightarrow> (Returned (Inl e), w2)
           | (Inr None, w2) \<Rightarrow> (Panicked ''nil pointer dereference'', w2)
           | (Inr (Some rt), w2) \<Rightarrow>
               (case invoke (AssociateRouteTableCall (RouteTableId rt) subnet)
                            (AssociateRouteTable svc (RouteTableId rt) subnet) w2 of
                  (Some e, w3) \<Rightarrow> (Returned (Inl e), w3)
                | (None, w3) \<Rightarrow> (Returned (Inr rt), w3))))"

definition createGatewayRoutes ::
  "'c EC2 \<Rightarrow> RouteTable \<Rightarrow> InternetGateway \<Rightarrow> 'c world \<Rightarrow> error option \<times> 'c world" where
  "createGatewayRoutes svc rt gw w =
     invoke (CreateRouteCall (RouteTableId rt) ''0.0.0.0/0'' (InternetGatewayId gw))
            (CreateRoute svc (RouteTableId rt) ''0.0.0.0/0'' (InternetGatewayId gw)) w"

text \<open>
  The last two assignments of \<open>Create\<close>: \<open>*resp.Subnet.SubnetId\<close> and
  \<open>*resp.Subnet.AvailabilityZone\<close> panic on \<open>nil\<close>.
\<close>

definition store_result :: "ec2Subnet option \<Rightarrow> Event \<Rightarrow> (error option \<times> Event) outcome" where
  "store_result sn ev =
     (case sn of
        None \<Rightarrow> Panicked ''nil pointer dereference''
      | Some sub \<Rightarrow>
          (case SubnetId sub of
             None \<Rightarrow> Panicked ''nil pointer dereference''
           | Some sid \<Rightarrow>
               (case SubnetAvailabilityZone sub of
                  None \<Rightarrow> Panicked ''nil pointer dereference''
                | Some az \<Rightarrow>
                    Returned (None, ev\<lparr>NetworkAWSID := sid, AvailabilityZone := az\<rparr>))))"

text \<open>
  The public part of \<open>Create\<close>. The subnet id is first dereferenced when the call of
  \<open>createRouteTable\<close> is evaluated, after the gateway step.
\<close>

definition make_public ::
  "'c EC2 \<Rightarrow> Event \<Rightarrow> ec2Subnet option \<Rightarrow> 'c world \<Rightarrow> (error option) outcome \<times> 'c world" where
  "make_public svc ev sn w =
     (case createInternetGateway svc (VPCID ev) w of
        (Panicked p, w1) \<Rightarrow> (Panicked p, w1)
      | (Returned (Inl e), w1) \<Rightarrow> (Returned (Some e), w1)
      | (Returned (Inr gateway), w1) \<Rightarrow>
          (case sn of
             None \<Rightarrow> (Panicked ''nil pointer dereference'', w1)
           | Some sub \<Rightarrow>
               (case SubnetId sub of
                  None \<Rightarrow> (Panicked ''nil pointer dereference'', w1)
                | Some sid \<Rightarrow>
                    (case createRouteTable svc (VPCID ev) sid w1 of
                       (Panicked p, w2) \<Rightarrow> (Panicked p, w2)
                     | (Returned (Inl e), w2) \<Rightarrow> (Returned (Some e), w2)
                     | (Returned (Inr rt), w2) \<Rightarrow>
                         (case createGatewayRoutes svc rt gateway w2 of
                            (Some e, w3) \<Rightarrow> (Returned (Some e), w3)
                          | (None, w3) \<Rightarrow>
                              (case invoke (ModifySubnetAttributeCall (SubnetId sub) True)
                                           (ModifySubnetAttribute svc (SubnetId sub) True) w3 of
                                 (Some e, w4) \<Rightarrow> (Returned (Some e), w4)
                               | (None, w4) \<Rightarrow> (Returned None, w4)))))))"

definition Create ::
  "'c env \<Rightarrow> Event \<Rightarrow> 'c world \<Rightarrow> (error option \<times> Event) outcome \<times> 'c world" where
  "Create env ev w =
     (let svc = ec2_New env (DatacenterRegion ev) (DatacenterAccessKey ev)
                  (DatacenterAccessToken ev) in
      case invoke (CreateSubnetCall (VPCID ev) (Subnet ev) (AvailabilityZone ev))
                  (CreateSubnet svc (VPCID ev) (Subnet ev) (AvailabilityZone ev)) w of
        (Inl e, w1) \<Rightarrow> (Returned (Some e, ev), w1)
      | (Inr sn, w1) \<Rightarrow>
          (if IsPublic ev then
             (case make_public svc ev sn w1 of
                (Panicked p, w2) \<Rightarrow> (Panicked p, w2)
              | (Returned (Some e), w2) \<Rightarrow> (Returned (Some e, ev), w2)
              | (Returned None, w2) \<Rightarrow> (store_result sn ev, w2))
           else (store_result sn ev, w1)))"

subsection \<open>Update, Get\<close>

definition Update :: "Event \<Rightarrow> error option" where
  "Update ev = Some (NotSupported (subject ev))"

definition Get :: "Event \<Rightarrow> error option" where
  "Get ev = Some (NotSupported (subject ev))"

subsection \<open>Delete and the wait for the interfaces\<close>

definition getNetworkInterfaces ::
  "'c EC2 \<Rightarrow> string \<Rightarrow> 'c world \<Rightarrow> (error + NetworkInterface list) \<times> 'c world" where
  "getNetworkInterfaces svc networkID w =
     (let f = [(''subnet-id'', [networkID])] in
      invoke (DescribeNetworkInterfacesCall f) (DescribeNetworkInterfaces svc f) w)"

text \<open>
  The loop \<open>for { ... }\<close> has no bound: it returns on an error or on an empty result, and
  otherwise sleeps a second and queries again. Where it never returns the value is
  \<open>None\<close>.
\<close>

partial_function (option) waitForInterfaceRemoval ::
  "'c EC2 \<Rightarrow> string \<Rightarrow> 'c world \<Rightarrow> (error option \<times> 'c world) option" where
  "waitForInterfaceRemoval svc networkID w =
     (case getNetworkInterfaces svc networkID w of
        (Inl e, w1) \<Rightarrow> Some (Some e, w1)
      | (Inr resp, w1) \<Rightarrow>
          (if length resp = 0 then Some (None, w1)
           else waitForInterfaceRemoval svc networkID (time_Sleep 1 w1)))"

declare waitForInterfaceRemoval.simps [code]

definition Delete :: "'c env \<Rightarrow> Event \<Rightarrow> 'c world \<Rightarrow> (error option \<times> 'c world) option" where
  "Delete env ev w =
     (let svc = ec2_New env (DatacenterRegion ev) (DatacenterAccessKey ev)
                  (DatacenterAccessToken ev) in
      case waitForInterfaceRemoval svc (NetworkAWSID ev) w of
        None \<Rightarrow> None
      | Some (Some e, w1) \<Rightarrow> Some (Some e, w1)
      | Some (None, w1) \<Rightarrow>
          Some (invoke (DeleteSubnetCall (NetworkAWSID ev))
                       (DeleteSubnet svc (NetworkAWSID ev)) w1))"

section \<open>The message handler\<close>

text \<open>\<open>strings.Split(s, sep)\<close> for a separator of one byte.\<close>

fun Split :: "string \<Rightarrow> char \<Rightarrow> string list" where
  "Split [] sep = [[]]"
| "Split (c # cs) sep =
     (if c = sep then [] # Split cs sep
      else (case Split cs sep of [] \<Rightarrow> [[c]] | p # ps \<Rightarrow> (c # p) # ps))"

text \<open>
  The \<open>switch parts[1]\<close> of the handler; \<open>err\<close> is still \<open>nil\<close> from \<open>Validate\<close>
  when no case matches.
\<close>

definition dispatch ::
  "'c env \<Rightarrow> string \<Rightarrow> Event \<Rightarrow> 'c world \<Rightarrow> ((error option \<times> Event) outcome \<times> 'c world) option" where
  "dispatch env action n w =
     (if action = ''create'' then Some (Create env n w)
      else if action = ''update'' then Some (Returned (Update n, n), w)
      else if action = ''delete'' then
        (case Delete env n w of
           None \<Rightarrow> None
         | Some (err, w1) \<Rightarrow> Some (Returned (err, n), w1))
      else if action = ''get'' then Some (Returned (Get n, n), w)
      else Some (Returned (None, n), w))"

text \<open>
  \<open>eventHandler\<close> for a message with the given subject and data. \<open>parts[1]\<close> panics
  when the subject has no dot.
\<close>

definition eventHandler ::
  "'c env \<Rightarrow> string \<Rightarrow> bytes \<Rightarrow> 'c world \<Rightarrow> (unit outcome \<times> 'c world) option" where
  "eventHandler env subj data w =
     (case Process (json_lib env) (New subj data) w of
        ((Some e, n), w1) \<Rightarrow> Some (Returned (), w1)
      | ((None, n), w1) \<Rightarrow>
          (case Validate n of
             Some e \<Rightarrow> Some (map_prod (map_outcome (\<lambda>_. ())) id (Error (json_lib env) e n w1))
           | None \<Rightarrow>
               (let parts = Split subj (CHR ''.'') in
                if length parts < 2 then Some (Panicked ''index out of range'', w1)
                else
                  (case dispatch env (parts ! 1) n w1 of
                     None \<Rightarrow> None
                   | Some (Panicked p, w2) \<Rightarrow> Some (Panicked p, w2)
                   | Some (Returned (Some e, n2), w2) \<Rightarrow>
                       Some (map_prod (map_outcome (\<lambda>_. ())) id (Error (json_lib env) e n2 w2))
                   | Some (Returned (None, n2), w2) \<Rightarrow>
                       Some (map_prod (map_outcome (\<lambda>_. ())) id (Complete (json_lib env) n2 w2))))))"

text \<open>
  \<open>main\<close> registers the handler for the subjects of its list \<open>events\<close>, and for no
  other: these are the subjects of the messages the handler receives.
\<close>

definition events :: "string list" where
  "events = [''network.create.aws'', ''network.delete.aws'']"

section \<open>The specification's reading of the handler\<close>

text \<open>
  The action of a message is the second dot-segment of its subject
  (\<open>network.create.aws\<close> has the action \<open>create\<close>); a subject without a dot has none.
\<close>

definition action_of :: "string \<Rightarrow> string option" where
  "action_of subj =
     (let parts = Split subj (CHR ''.'') in
      if length parts < 2 then None else Some (parts ! 1))"

text \<open>
  Validation as the specification words it: a list of checks in a fixed order, each with
  its own error, of which the first failing one is returned. The fourth check depends on
  whether the request is a delete request; that test is the parameter \<open>is_delete\<close>.
\<close>

fun first_failing :: "(bool \<times> error) list \<Rightarrow> error option" where
  "first_failing [] = None"
| "first_failing ((ok, e) # cs) = (if ok then first_failing cs else Some e)"

definition validate_spec :: "(Event \<Rightarrow> bool) \<Rightarrow> Event \<Rightarrow> error option" where
  "validate_spec is_delete ev =
     first_failing
       [(VPCID ev \<noteq> '''', ErrDatacenterIDInvalid),
        (DatacenterRegion ev \<noteq> '''', ErrDatacenterRegionInvalid),
        (DatacenterAccessKey ev \<noteq> '''' \<and> DatacenterAccessToken ev \<noteq> '''',
           ErrDatacenterCredentialsInvalid),
        (if is_delete ev then NetworkAWSID ev \<noteq> '''' else Subnet ev \<noteq> '''',
           if is_delete ev then ErrNetworkAWSIDInvalid else ErrNetworkSubnetInvalid)]"

text \<open>The wire fields of an envelope: everything but the subject and the raw body.\<close>

definition wire_eq :: "Event \<Rightarrow> Event \<Rightarrow> bool" where
  "wire_eq a b \<longleftrightarrow> a\<lparr>subject := '''', body := ''''\<rparr> = b\<lparr>subject := '''', body := ''''\<rparr>"

text \<open>
  The service state after \<open>k\<close> rounds of the wait loop that found interfaces: each round
  is one query followed by a sleep.
\<close>

primrec after_polls :: "'c EC2 \<Rightarrow> string \<Rightarrow> nat \<Rightarrow> 'c world \<Rightarrow> 'c world" where
  "after_polls svc networkID 0 w = w"
| "after_polls svc networkID (Suc k) w =
     after_polls svc networkID k (time_Sleep 1 (snd (getNetworkInterfaces svc networkID w)))"

text \<open>The trace of \<open>k\<close> such rounds.\<close>

definition poll_rounds :: "string \<Rightarrow> nat \<Rightarrow> effect list" where
  "poll_rounds networkID k =
     concat (replicate k [DescribeNetworkInterfacesCall [(''subnet-id'', [networkID])], Sleep 1])"

text \<open>
  \<open>polls_busy svc id k w\<close>: starting in \<open>w\<close>, each of the first \<open>k\<close> queries succeeds
  and finds an interface. \<open>poll_ends svc id w y\<close>: the query made in \<open>w\<close> ends the wait
  with the result \<open>y\<close>, because it fails or because it finds no interface.
\<close>

definition polls_busy :: "'c EC2 \<Rightarrow> string \<Rightarrow> nat \<Rightarrow> 'c world \<Rightarrow> bool" where
  "polls_busy svc networkID k w \<longleftrightarrow>
     (\<forall>j<k. case fst (getNetworkInterfaces svc networkID (after_polls svc networkID j w)) of
               Inl e \<Rightarrow> False | Inr resp \<Rightarrow> resp \<noteq> [])"

definition poll_ends ::
  "'c EC2 \<Rightarrow> string \<Rightarrow> 'c world \<Rightarrow> error option \<times> 'c world \<Rightarrow> bool" where
  "poll_ends svc networkID w y \<longleftrightarrow>
     (case getNetworkInterfaces svc networkID w of
        (Inl e, w1) \<Rightarrow> y = (Some e, w1)
      | (Inr resp, w1) \<Rightarrow> resp = [] \<and> y = (None, w1))"




section \<open>A sample environment\<close>

text \<open>
  Concrete stand-ins for the library and the service, on which the general theorems are
  instantiated. \<open>plain_text\<close> writes a JSON value the way the library does when no
  string needs escaping; \<open>sample_parse\<close> reads the three payloads used below as the
  library does and rejects everything else.
\<close>

fun join :: "string \<Rightarrow> string list \<Rightarrow> string" where
  "join sep [] = []"
| "join sep [x] = x"
| "join sep (x # y # ys) = x @ sep @ join sep (y # ys)"

definition quoted :: "string \<Rightarrow> string" where
  "quoted s = [CHR 0x22] @ s @ [CHR 0x22]"

primrec plain_text :: "json \<Rightarrow> string" where
  "plain_text JNull = ''null''"
| "plain_text (JBool b) = (if b then ''true'' else ''false'')"
| "plain_text (JString s) = quoted s"
| "plain_text (JNumber n) = n"
| "plain_text (JArray xs) = ''['' @ join '','' (map plain_text xs) @ '']''"
| "plain_text (JObject kvs) =
     ''{'' @ join '','' (map (\<lambda>kv. quoted (fst kv) @ '':'' @ snd kv)
                            (map (map_prod id plain_text) kvs)) @ ''}''"

definition valid_payload :: bytes where
  \<open>valid_payload =
     ''{"_uuid":"test","_batch_id":"test","_type":"aws","datacenter_region":"eu-west-1","datacenter_secret":"key","datacenter_token":"token","vpc_id":"vpc-0000000","network_aws_id":"subnet-00000000","name":"","range":"10.0.0.0/16","is_public":false,"availability_zone":""}''\<close>

definition valid_object :: "(string \<times> json) list" where
  "valid_object =
     [(''_uuid'', JString ''test''), (''_batch_id'', JString ''test''),
      (''_type'', JString ''aws''), (''datacenter_region'', JString ''eu-west-1''),
      (''datacenter_secret'', JString ''key''), (''datacenter_token'', JString ''token''),
      (''vpc_id'', JString ''vpc-0000000''), (''network_aws_id'', JString ''subnet-00000000''),
      (''name'', JString ''''), (''range'', JString ''10.0.0.0/16''),
      (''is_public'', JBool False), (''availability_zone'', JString '''')]"

definition sample_parse :: "bytes \<Rightarrow> error + json" where
  "sample_parse b =
     (if b = ''{}'' then Inr (JObject [])
      else if b = ''null'' then Inr JNull
      else if b = valid_payload then Inr (JObject valid_object)
      else Inl (LibError ''invalid character''))"

definition sample_codec :: codec where
  "sample_codec =
     \<lparr> json_parse = sample_parse,
       json_render = (\<lambda>v. Inr (plain_text v)),
       json_fold = (\<lambda>f key. False) \<rparr>"

text \<open>A library whose writer always fails, to reach the error branches of the code.\<close>

definition failing_codec :: codec where
  "failing_codec = sample_codec\<lparr>json_render := (\<lambda>v. Inl (LibError ''unsupported value''))\<rparr>"

text \<open>
  A service whose state is the number of network interfaces still attached to the subnet:
  each query reports them and one goes away afterwards. Nothing exists beforehand, and
  every operation succeeds.
\<close>

definition sample_ec2 :: "nat EC2" where
  "sample_ec2 =
     \<lparr> CreateSubnet = (\<lambda>vpc cidr az c.
         (Inr (Some \<lparr>SubnetId = Some ''subnet-00000000'',
                     SubnetAvailabilityZone = Some ''eu-west-1a''\<rparr>), c)),
       DescribeInternetGateways = (\<lambda>f c. (Inr [], c)),
       CreateInternetGateway = (\<lambda>c. (Inr (Some \<lparr>InternetGatewayId = Some ''igw-1''\<rparr>), c)),
       AttachInternetGateway = (\<lambda>gw vpc c. (None, c)),
       DescribeRouteTables = (\<lambda>f c. (Inr [], c)),
       CreateRouteTable = (\<lambda>vpc c. (Inr (Some \<lparr>RouteTableId = Some ''rtb-1''\<rparr>), c)),
       AssociateRouteTable = (\<lambda>rt subnet c. (None, c)),
       CreateRoute = (\<lambda>rt dest gw c. (None, c)),
       ModifySubnetAttribute = (\<lambda>subnet v c. (None, c)),
       DescribeNetworkInterfaces = (\<lambda>f c. (Inr (replicate c ''eni''), c - 1)),
       DeleteSubnet = (\<lambda>subnet c. (None, c)) \<rparr>"

text \<open>The same service with an interface that never goes away.\<close>

definition busy_ec2 :: "nat EC2" where
  "busy_ec2 = sample_ec2\<lparr>DescribeNetworkInterfaces := (\<lambda>f c. (Inr [''eni''], c))\<rparr>"

definition sample_env :: "nat env" where
  "sample_env = \<lparr> json_lib = sample_codec, ec2_New = (\<lambda>region key token. sample_ec2) \<rparr>"

definition busy_env :: "nat env" where
  "busy_env = \<lparr> json_lib = sample_codec, ec2_New = (\<lambda>region key token. busy_ec2) \<rparr>"

definition failing_env :: "nat env" where
  "failing_env = \<lparr> json_lib = failing_codec, ec2_New = (\<lambda>region key token. sample_ec2) \<rparr>"

definition world0 :: "nat world" where
  "world0 = \<lparr> cloud = 2, calls = [], pubs = [] \<rparr>"

text \<open>The envelope of the repository's tests, here with the public flag as a parameter.\<close>

definition testEvent :: "string \<Rightarrow> bool \<Rightarrow> Event" where
  "testEvent subj pub =
     \<lparr> UUID = ''test'', BatchID = ''test'', ProviderType = ''aws'',
       DatacenterRegion = ''eu-west-1'', DatacenterAccessKey = ''key'',
       DatacenterAccessToken = ''token'', VPCID = ''vpc-0000000'',
       NetworkAWSID = ''subnet-00000000'', Name = '''', Subnet = ''10.0.0.0/16'',
       IsPublic = pub, AvailabilityZone = '''', ErrorMessage = '''',
       subject = subj, body = valid_payload \<rparr>"

text \<open>
  A delete request on a subject other than the one the worker subscribes to, with no
  subnet identifier.
\<close>

definition stray_delete :: Event where
  "stray_delete = (testEvent ''subnet.delete.aws'' False)\<lparr>NetworkAWSID := ''''\<rparr>"

section \<open>Decoding keeps the routing metadata\<close>

lemma set_string_subject [simp]: "subject (set_string f s ev) = subject ev"
  by (simp add: set_string_def)

lemma set_string_body [simp]: "body (set_string f s ev) = body ev"
  by (simp add: set_string_def)

lemma store_subject_body:
  "store f v ev = Inr ev' \<Longrightarrow> subject ev' = subject ev \<and> body ev' = body ev"
  by (auto simp: store_def split: if_splits json.splits)

lemma overlay_subject_body:
  "overlay js kvs saved ev = (r, ev') \<Longrightarrow> subject ev' = subject ev \<and> body ev' = body ev"
proof (induction kvs arbitrary: saved ev)
  case Nil
  then show ?case by simp
next
  case (Cons kv kvs)
  obtain key v where kv: "kv = (key, v)" by (cases kv)
  show ?case
  proof (cases "find_field js key")
    case None
    with Cons kv show ?thesis by simp
  next
    case (Some f)
    show ?thesis
    proof (cases "store f v ev")
      case (Inl e)
      with Cons Some kv show ?thesis by simp
    next
      case (Inr ev1)
      with Cons.prems Some kv have "overlay js kvs saved ev1 = (r, ev')" by simp
      from Cons.IH[OF this] store_subject_body[OF Inr] show ?thesis by simp
    qed
  qed
qed

lemma Unmarshal_subject_body:
  "Unmarshal js b ev = (r, ev') \<Longrightarrow> subject ev' = subject ev \<and> body ev' = body ev"
  by (auto simp: Unmarshal_def split: sum.splits json.splits dest: overlay_subject_body)

lemma New_subject [simp]: "subject (New subj b) = subj"
  by (simp add: New_def)

lemma New_body [simp]: "body (New subj b) = b"
  by (simp add: New_def)

lemma Process_ok:
  "Unmarshal js data (New subj data) = (None, n) \<Longrightarrow>
   Process js (New subj data) w = ((None, n), w)"
  by (simp add: Process_def)

lemma Process_fail:
  assumes "Unmarshal js data (New subj data) = (Some e, n)"
  shows "Process js (New subj data) w = ((Some e, n), Publish (subj @ ''.error'') data w)"
  using assms Unmarshal_subject_body[OF assms] by (simp add: Process_def)

lemma sample_lib [simp]: "json_lib sample_env = sample_codec"
  by (simp add: sample_env_def)

lemma sample_decode_empty:
  "Unmarshal sample_codec ''{}'' (New subj ''{}'') = (None, New subj ''{}'')"
  by (simp add: Unmarshal_def sample_codec_def sample_parse_def)

lemma sample_decode_valid:
  "Unmarshal sample_codec valid_payload (New subj valid_payload) = (None, testEvent subj False)"
  by (simp add: Unmarshal_def sample_codec_def sample_parse_def valid_payload_def
      valid_object_def find_field_def field_names_def store_def set_string_def New_def
      testEvent_def)

section \<open>Validation\<close>

text \<open>
  \<open>Validate\<close> is the first failing check of the specification's list, with the
  comparison of the whole subject with \<open>network.delete.aws\<close> as the test of the fourth
  check. On the subjects the handler is registered for, that comparison and the test of
  the action agree.
\<close>

lemma Validate_subject_test:
  "Validate ev = validate_spec (\<lambda>e. subject e = ''network.delete.aws'') ev"
  by (simp add: Validate_def validate_spec_def)

lemma events_action:
  "subj \<in> set events \<Longrightarrow>
   (action_of subj = Some ''delete'') = (subj = ''network.delete.aws'')"
  by (auto simp: events_def action_of_def)


text \<open>
  Claim C2. For every envelope the handler receives (its subject is one of \<open>events\<close>),
  \<open>Validate\<close> is the first failing check of the specification's list, in its order:
  VPC id, region, both credentials, and then the subnet identifier when the action is
  \<open>delete\<close> and the CIDR range otherwise; it is \<open>nil\<close> when every check passes. The
  five errors have five different messages. When the payload decodes and validation
  fails, the handler returns without having invoked the service: the trace and the
  service state are as before.
\<close>

theorem validate_first_failing_check:
  assumes sub: "subject ev \<in> set events"
  shows "Validate ev = validate_spec (\<lambda>e. action_of (subject e) = Some ''delete'') ev
   \<and> distinct (map Error_msg [ErrDatacenterIDInvalid, ErrDatacenterRegionInvalid,
        ErrDatacenterCredentialsInvalid, ErrNetworkAWSIDInvalid, ErrNetworkSubnetInvalid])
   \<and> (\<forall>n err. Unmarshal (json_lib env) data (New subj data) = (None, n)
                 \<and> Validate n = Some err \<longrightarrow>
        (\<exists>r w'. eventHandler env subj data w = Some (r, w')
                 \<and> calls w' = calls w \<and> cloud w' = cloud w))"
proof (intro conjI allI impI)
  from events_action[OF sub]
  show "Validate ev = validate_spec (\<lambda>e. action_of (subject e) = Some ''delete'') ev"
    by (simp add: Validate_subject_test validate_spec_def)
next
  show "distinct (map Error_msg [ErrDatacenterIDInvalid, ErrDatacenterRegionInvalid,
        ErrDatacenterCredentialsInvalid, ErrNetworkAWSIDInvalid, ErrNetworkSubnetInvalid])"
    by simp
next
  fix n err
  assume "Unmarshal (json_lib env) data (New subj data) = (None, n) \<and> Validate n = Some err"
  then show "\<exists>r w'. eventHandler env subj data w = Some (r, w')
                     \<and> calls w' = calls w \<and> cloud w' = cloud w"
    by (auto simp: eventHandler_def Process_ok Error_def Publish_def Let_def
             split: sum.splits)
qed

theorem validate_first_failing_check_witness:
  "subject (New ''network.create.aws'' ''{}'') \<in> set events
   \<and> Unmarshal (json_lib sample_env) ''{}'' (New ''network.create.aws'' ''{}'')
     = (None, New ''network.create.aws'' ''{}'')
   \<and> Validate (New ''network.create.aws'' ''{}'') = Some ErrDatacenterIDInvalid
   \<and> validate_spec (\<lambda>e. action_of (subject e) = Some ''delete'')
        (New ''network.create.aws'' ''{}'') = Some ErrDatacenterIDInvalid
   \<and> (\<exists>r w'. eventHandler sample_env ''network.create.aws'' ''{}'' world0 = Some (r, w')
              \<and> calls w' = calls world0 \<and> cloud w' = cloud world0)"
proof -
  have s: "subject (New ''network.create.aws'' ''{}'') \<in> set events"
    by (simp add: events_def)
  have d: "Unmarshal (json_lib sample_env) ''{}'' (New ''network.create.aws'' ''{}'')
             = (None, New ''network.create.aws'' ''{}'')"
    by (simp add: sample_decode_empty)
  have v: "Validate (New ''network.create.aws'' ''{}'') = Some ErrDatacenterIDInvalid"
    by (simp add: Validate_def New_def)
  note t = validate_first_failing_check[OF s, of sample_env "''{}''" "''network.create.aws''" world0]
  from t v have e: "validate_spec (\<lambda>e. action_of (subject e) = Some ''delete'')
        (New ''network.create.aws'' ''{}'') = Some ErrDatacenterIDInvalid"
    by simp
  from t
  have "\<forall>n err. Unmarshal (json_lib sample_env) ''{}'' (New ''network.create.aws'' ''{}'') = (None, n)
                 \<and> Validate n = Some err \<longrightarrow>
        (\<exists>r w'. eventHandler sample_env ''network.create.aws'' ''{}'' world0 = Some (r, w')
                 \<and> calls w' = calls world0 \<and> cloud w' = cloud world0)"
    by blast
  with s d v e show ?thesis by blast
qed

text \<open>
  Off the list of \<open>events\<close> the two tests can differ: \<open>stray_delete\<close> has the action
  \<open>delete\<close> and no subnet identifier, and \<open>Validate\<close> accepts it.
\<close>

lemma validate_outside_subscription:
  "subject stray_delete \<notin> set events
   \<and> action_of (subject stray_delete) = Some ''delete''
   \<and> NetworkAWSID stray_delete = ''''
   \<and> Validate stray_delete = None"
  by (simp add: stray_delete_def testEvent_def action_of_def Validate_def events_def)

section \<open>Unrecognised actions\<close>

text \<open>
  Claim C9. When the payload decodes and validates and the action (the second dot-segment
  of the subject) is none of \<open>create\<close>, \<open>update\<close>, \<open>delete\<close>, \<open>get\<close>, the handler
  touches neither the service nor the trace, and its one effect is to publish the
  serialized envelope on \<open>subject.done\<close>. (Serializing is a call of the JSON library;
  the statement is for the case that it succeeds.)
\<close>

theorem unknown_action_reported_done:
  assumes dec: "Unmarshal (json_lib env) data (New subj data) = (None, n)"
    and val: "Validate n = None"
    and act: "action_of subj = Some a"
    and unk: "a \<notin> {''create'', ''update'', ''delete'', ''get''}"
    and ser: "Marshal (json_lib env) n = Inr out"
  shows "eventHandler env subj data w =
           Some (Returned (), w\<lparr>pubs := pubs w @ [(subj @ ''.done'', out)]\<rparr>)"
proof -
  from Unmarshal_subject_body[OF dec] have s: "subject n = subj" by simp
  from act have len: "\<not> length (Split subj (CHR ''.'')) < 2" and a: "Split subj (CHR ''.'') ! 1 = a"
    by (auto simp: action_of_def Let_def split: if_splits)
  from unk have d: "dispatch env a n w = Some (Returned (None, n), w)"
    by (simp add: dispatch_def)
  show ?thesis
    using len a d val ser s
    by (simp add: eventHandler_def Process_ok[OF dec] Let_def Complete_def Publish_def)
qed

lemma sample_marshal_valid: "Marshal sample_codec (testEvent subj False) = Inr valid_payload"
  by (simp add: Marshal_def sample_codec_def json_fields_def testEvent_def quoted_def valid_payload_def)

theorem unknown_action_reported_done_witness:
  "Unmarshal (json_lib sample_env) valid_payload (New ''network.list.aws'' valid_payload)
     = (None, testEvent ''network.list.aws'' False)
   \<and> Validate (testEvent ''network.list.aws'' False) = None
   \<and> action_of ''network.list.aws'' = Some ''list''
   \<and> ''list'' \<notin> {''create'', ''update'', ''delete'', ''get''}
   \<and> Marshal (json_lib sample_env) (testEvent ''network.list.aws'' False) = Inr valid_payload
   \<and> eventHandler sample_env ''network.list.aws'' valid_payload world0 =
       Some (Returned (), world0\<lparr>pubs := pubs world0 @ [(''network.list.aws.done'', valid_payload)]\<rparr>)"
proof -
  have dec: "Unmarshal (json_lib sample_env) valid_payload (New ''network.list.aws'' valid_payload)
     = (None, testEvent ''network.list.aws'' False)"
    by (simp add: sample_decode_valid)
  have val: "Validate (testEvent ''network.list.aws'' False) = None"
    by (simp add: Validate_def testEvent_def)
  have act: "action_of ''network.list.aws'' = Some ''list''"
    by (simp add: action_of_def)
  have unk: "''list'' \<notin> {''create'', ''update'', ''delete'', ''get''}" by simp
  have ser: "Marshal (json_lib sample_env) (testEvent ''network.list.aws'' False) = Inr valid_payload"
    by (simp add: sample_marshal_valid)
  from unknown_action_reported_done[OF dec val act unk ser, of world0] dec val act unk ser
  show ?thesis by simp
qed

section \<open>Create\<close>

text \<open>
  Claim C5. For a request that is not public, \<open>Create\<close> succeeds exactly when
  \<open>CreateSubnet\<close> replies with a subnet that has an identifier and an availability
  zone; then \<open>CreateSubnet\<close> is the one operation invoked, and the identifier and the
  zone are stored in the envelope.
\<close>

theorem create_private_single_call:
  assumes "\<not> IsPublic ev"
  shows "Create env ev w = (Returned (None, ev'), w') \<longleftrightarrow>
     (\<exists>sub sid az c'.
        CreateSubnet (ec2_New env (DatacenterRegion ev) (DatacenterAccessKey ev)
                        (DatacenterAccessToken ev))
          (VPCID ev) (Subnet ev) (AvailabilityZone ev) (cloud w)
          = (Inr (Some sub), c')
        \<and> SubnetId sub = Some sid \<and> SubnetAvailabilityZone sub = Some az
        \<and> ev' = ev\<lparr>NetworkAWSID := sid, AvailabilityZone := az\<rparr>
        \<and> w' = w\<lparr>cloud := c',
                  calls := calls w @ [CreateSubnetCall (VPCID ev) (Subnet ev) (AvailabilityZone ev)]\<rparr>)"
  using assms
  by (auto simp: Create_def Let_def invoke_def store_result_def
           split: prod.splits sum.splits option.splits) 



subsection \<open>The public path\<close>

lemma internetGatewayByVPCID_eq:
  assumes "DescribeInternetGateways svc [(''attachment.vpc-id'', [vpc])] (cloud w) = (r, c1)"
  shows "internetGatewayByVPCID svc vpc w =
     ((case r of Inl e \<Rightarrow> Inl e | Inr gws \<Rightarrow> if gws = [] then Inr None else Inr (Some (gws ! 0))),
      w\<lparr>cloud := c1, calls := calls w @ [DescribeInternetGatewaysCall [(''attachment.vpc-id'', [vpc])]]\<rparr>)"
  using assms by (simp add: internetGatewayByVPCID_def invoke_def split: sum.splits)

lemma createInternetGateway_ok:
  assumes run: "createInternetGateway svc vpc w = (Returned (Inr gw), w1)"
  shows "\<exists>gws c1. DescribeInternetGateways svc [(''attachment.vpc-id'', [vpc])] (cloud w) = (Inr gws, c1)
     \<and> (if gws = []
         then (\<exists>c2 c3. CreateInternetGateway svc c1 = (Inr (Some gw), c2)
                 \<and> AttachInternetGateway svc (InternetGatewayId gw) vpc c2 = (None, c3)
                 \<and> cloud w1 = c3)
         else gw = gws ! 0 \<and> cloud w1 = c1)
     \<and> pubs w1 = pubs w
     \<and> calls w1 = calls w @ [DescribeInternetGatewaysCall [(''attachment.vpc-id'', [vpc])]]
          @ (if gws = [] then [CreateInternetGatewayCall,
                               AttachInternetGatewayCall (InternetGatewayId gw) vpc] else [])"
proof -
  obtain r c1 where d: "DescribeInternetGateways svc [(''attachment.vpc-id'', [vpc])] (cloud w) = (r, c1)"
    by (cases "DescribeInternetGateways svc [(''attachment.vpc-id'', [vpc])] (cloud w)")
  note ig = internetGatewayByVPCID_eq[OF d]
  show ?thesis
  proof (cases r)
    case (Inl e)
    with run ig show ?thesis by (auto simp add: createInternetGateway_def)
  next
    case (Inr gws)
    show ?thesis
    proof (cases "gws = []")
      case False
      with run ig Inr d show ?thesis by (auto simp add: createInternetGateway_def)
    next
      case True
      obtain r2 c2 where c: "CreateInternetGateway svc c1 = (r2, c2)"
        by (cases "CreateInternetGateway svc c1")
      show ?thesis
      proof (cases r2)
        case (Inl e)
        with run ig Inr True c show ?thesis by (auto simp add: createInternetGateway_def invoke_def)
      next
        case r2: (Inr go)
        show ?thesis
        proof (cases go)
          case None
          with run ig Inr True c r2 show ?thesis by (auto simp add: createInternetGateway_def invoke_def)
        next
          case (Some g)
          obtain r3 c3 where a: "AttachInternetGateway svc (InternetGatewayId g) vpc c2 = (r3, c3)"
            by (cases "AttachInternetGateway svc (InternetGatewayId g) vpc c2")
          with run ig Inr True c r2 Some d show ?thesis
            by (cases r3) (auto simp add: createInternetGateway_def invoke_def)
        qed
      qed
    qed
  qed
qed

lemma routingTableBySubnetID_eq:
  assumes "DescribeRouteTables svc [(''association.subnet-id'', [subnet])] (cloud w) = (r, c1)"
  shows "routingTableBySubnetID svc subnet w =
     ((case r of Inl e \<Rightarrow> Inl e | Inr rts \<Rightarrow> if rts = [] then Inr None else Inr (Some (rts ! 0))),
      w\<lparr>cloud := c1, calls := calls w @ [DescribeRouteTablesCall [(''association.subnet-id'', [subnet])]]\<rparr>)"
  using assms by (simp add: routingTableBySubnetID_def invoke_def split: sum.splits)

lemma createRouteTable_ok:
  assumes run: "createRouteTable svc vpc subnet w = (Returned (Inr rt), w1)"
  shows "\<exists>rts c1. DescribeRouteTables svc [(''association.subnet-id'', [subnet])] (cloud w) = (Inr rts, c1)
     \<and> (if rts = []
         then (\<exists>c2 c3. CreateRouteTable svc vpc c1 = (Inr (Some rt), c2)
                 \<and> AssociateRouteTable svc (RouteTableId rt) subnet c2 = (None, c3)
                 \<and> cloud w1 = c3)
         else rt = rts ! 0 \<and> cloud w1 = c1)
     \<and> pubs w1 = pubs w
     \<and> calls w1 = calls w @ [DescribeRouteTablesCall [(''association.subnet-id'', [subnet])]]
          @ (if rts = [] then [CreateRouteTableCall vpc,
                               AssociateRouteTableCall (RouteTableId rt) subnet] else [])"
proof -
  obtain r c1 where d: "DescribeRouteTables svc [(''association.subnet-id'', [subnet])] (cloud w) = (r, c1)"
    by (cases "DescribeRouteTables svc [(''association.subnet-id'', [subnet])] (cloud w)")
  note rb = routingTableBySubnetID_eq[OF d]
  show ?thesis
  proof (cases r)
    case (Inl e)
    with run rb show ?thesis by (auto simp add: createRouteTable_def)
  next
    case (Inr rts)
    show ?thesis
    proof (cases "rts = []")
      case False
      with run rb Inr d show ?thesis by (auto simp add: createRouteTable_def)
    next
      case True
      obtain r2 c2 where c: "CreateRouteTable svc vpc c1 = (r2, c2)"
        by (cases "CreateRouteTable svc vpc c1")
      show ?thesis
      proof (cases r2)
        case (Inl e)
        with run rb Inr True c show ?thesis by (auto simp add: createRouteTable_def invoke_def)
      next
        case r2: (Inr ro)
        show ?thesis
        proof (cases ro)
          case None
          with run rb Inr True c r2 show ?thesis by (auto simp add: createRouteTable_def invoke_def)
        next
          case (Some t)
          obtain r3 c3 where a: "AssociateRouteTable svc (RouteTableId t) subnet c2 = (r3, c3)"
            by (cases "AssociateRouteTable svc (RouteTableId t) subnet c2")
          with run rb Inr True c r2 Some d show ?thesis
            by (cases r3) (auto simp add: createRouteTable_def invoke_def)
        qed
      qed
    qed
  qed
qed

lemma make_public_ok:
  assumes "make_public svc ev sn w = (Returned None, w')"
  shows "\<exists>sub sid gw rt w1 w2.
       sn = Some sub \<and> SubnetId sub = Some sid
     \<and> createInternetGateway svc (VPCID ev) w = (Returned (Inr gw), w1)
     \<and> createRouteTable svc (VPCID ev) sid w1 = (Returned (Inr rt), w2)
     \<and> pubs w' = pubs w2
     \<and> calls w' = calls w2 @ [CreateRouteCall (RouteTableId rt) ''0.0.0.0/0'' (InternetGatewayId gw),
                               ModifySubnetAttributeCall (Some sid) True]"
proof -
  obtain r1 w1 where g: "createInternetGateway svc (VPCID ev) w = (r1, w1)"
    by (cases "createInternetGateway svc (VPCID ev) w")
  from assms g obtain gw where r1: "r1 = Returned (Inr gw)"
    by (auto simp: make_public_def split: outcome.splits sum.splits)
  from assms g r1 obtain sub sid where sn: "sn = Some sub" and sid: "SubnetId sub = Some sid"
    by (auto simp: make_public_def split: option.splits)
  obtain r2 w2 where r: "createRouteTable svc (VPCID ev) sid w1 = (r2, w2)"
    by (cases "createRouteTable svc (VPCID ev) sid w1")
  from assms g r1 sn sid r obtain rt where r2: "r2 = Returned (Inr rt)"
    by (auto simp: make_public_def split: outcome.splits sum.splits)
  obtain r3 c3 where cr: "CreateRoute svc (RouteTableId rt) ''0.0.0.0/0'' (InternetGatewayId gw) (cloud w2) = (r3, c3)"
    by (cases "CreateRoute svc (RouteTableId rt) ''0.0.0.0/0'' (InternetGatewayId gw) (cloud w2)")
  let ?w3 = "w2\<lparr>cloud := c3, calls := calls w2 @ [CreateRouteCall (RouteTableId rt) ''0.0.0.0/0'' (InternetGatewayId gw)]\<rparr>"
  obtain r4 c4 where m: "ModifySubnetAttribute svc (Some sid) True c3 = (r4, c4)"
    by (cases "ModifySubnetAttribute svc (Some sid) True c3")
  from assms g r1 sn sid r r2 cr m
  have "w' = ?w3\<lparr>cloud := c4, calls := calls ?w3 @ [ModifySubnetAttributeCall (Some sid) True]\<rparr>"
    by (auto simp: make_public_def createGatewayRoutes_def invoke_def split: option.splits)
  then have "pubs w' = pubs w2
     \<and> calls w' = calls w2 @ [CreateRouteCall (RouteTableId rt) ''0.0.0.0/0'' (InternetGatewayId gw),
                               ModifySubnetAttributeCall (Some sid) True]"
    by simp
  with sn sid g r1 r r2 show ?thesis by blast
qed

text \<open>
  Claim C3. A successful \<open>Create\<close> of a public request invokes, in this order:
  \<open>CreateSubnet\<close>; \<open>DescribeInternetGateways\<close> filtered by the VPC id; when that found
  no gateway, \<open>CreateInternetGateway\<close> and \<open>AttachInternetGateway\<close>, and otherwise
  neither; \<open>DescribeRouteTables\<close> filtered by the new subnet's id; when that found no
  table, \<open>CreateRouteTable\<close> and \<open>AssociateRouteTable\<close>, and otherwise neither;
  \<open>CreateRoute\<close> for \<open>0.0.0.0/0\<close> to the gateway (the one found, or the new one);
  \<open>ModifySubnetAttribute\<close> setting the mapping of public addresses on launch.
\<close>

theorem create_public_call_order:
  assumes pub: "IsPublic ev"
    and run: "Create env ev w = (Returned (None, ev'), w')"
  shows "\<exists>sub sid c1 gws c2 gw c3 rts c4 rt.
       CreateSubnet (ec2_New env (DatacenterRegion ev) (DatacenterAccessKey ev)
                       (DatacenterAccessToken ev))
         (VPCID ev) (Subnet ev) (AvailabilityZone ev) (cloud w) = (Inr (Some sub), c1)
     \<and> SubnetId sub = Some sid
     \<and> DescribeInternetGateways (ec2_New env (DatacenterRegion ev) (DatacenterAccessKey ev)
                       (DatacenterAccessToken ev))
         [(''attachment.vpc-id'', [VPCID ev])] c1 = (Inr gws, c2)
     \<and> (if gws = []
         then (\<exists>ca. CreateInternetGateway (ec2_New env (DatacenterRegion ev)
                        (DatacenterAccessKey ev) (DatacenterAccessToken ev)) c2
                        = (Inr (Some gw), ca)
                 \<and> AttachInternetGateway (ec2_New env (DatacenterRegion ev)
                        (DatacenterAccessKey ev) (DatacenterAccessToken ev))
                        (InternetGatewayId gw) (VPCID ev) ca = (None, c3))
         else gw = gws ! 0 \<and> c3 = c2)
     \<and> DescribeRouteTables (ec2_New env (DatacenterRegion ev) (DatacenterAccessKey ev)
                       (DatacenterAccessToken ev))
         [(''association.subnet-id'', [sid])] c3 = (Inr rts, c4)
     \<and> (if rts = []
         then (\<exists>cb cc. CreateRouteTable (ec2_New env (DatacenterRegion ev)
                        (DatacenterAccessKey ev) (DatacenterAccessToken ev)) (VPCID ev) c4
                        = (Inr (Some rt), cb)
                 \<and> AssociateRouteTable (ec2_New env (DatacenterRegion ev)
                        (DatacenterAccessKey ev) (DatacenterAccessToken ev))
                        (RouteTableId rt) sid cb = (None, cc))
         else rt = rts ! 0)
     \<and> calls w' = calls w
          @ [CreateSubnetCall (VPCID ev) (Subnet ev) (AvailabilityZone ev),
             DescribeInternetGatewaysCall [(''attachment.vpc-id'', [VPCID ev])]]
          @ (if gws = [] then [CreateInternetGatewayCall,
                               AttachInternetGatewayCall (InternetGatewayId gw) (VPCID ev)]
             else [])
          @ [DescribeRouteTablesCall [(''association.subnet-id'', [sid])]]
          @ (if rts = [] then [CreateRouteTableCall (VPCID ev),
                               AssociateRouteTableCall (RouteTableId rt) sid]
             else [])
          @ [CreateRouteCall (RouteTableId rt) ''0.0.0.0/0'' (InternetGatewayId gw),
             ModifySubnetAttributeCall (Some sid) True]"
proof -
  define svc where "svc = ec2_New env (DatacenterRegion ev) (DatacenterAccessKey ev)
                       (DatacenterAccessToken ev)"
  let ?e0 = "CreateSubnetCall (VPCID ev) (Subnet ev) (AvailabilityZone ev)"
  from run pub obtain sn c1 w2 where
    cs: "CreateSubnet svc (VPCID ev) (Subnet ev) (AvailabilityZone ev) (cloud w) = (Inr sn, c1)"
    and mp: "make_public svc ev sn (w\<lparr>cloud := c1, calls := calls w @ [?e0]\<rparr>)
             = (Returned None, w2)"
    and w': "w' = w2"
  proof -
    obtain r1 c1 where cs: "CreateSubnet svc (VPCID ev) (Subnet ev) (AvailabilityZone ev) (cloud w) = (r1, c1)"
      by (cases "CreateSubnet svc (VPCID ev) (Subnet ev) (AvailabilityZone ev) (cloud w)")
    let ?w0 = "w\<lparr>cloud := c1, calls := calls w @ [?e0]\<rparr>"
    from run cs obtain sn where r1: "r1 = Inr sn"
      by (auto simp: Create_def Let_def invoke_def svc_def split: sum.splits)
    obtain r2 w2 where mp: "make_public svc ev sn ?w0 = (r2, w2)"
      by (cases "make_public svc ev sn ?w0")
    from run pub cs r1 mp have "r2 = Returned None \<and> w' = w2"
      by (auto simp: Create_def Let_def invoke_def svc_def split: outcome.splits option.splits)
    with that cs r1 mp show ?thesis by blast
  qed
  let ?w0 = "w\<lparr>cloud := c1, calls := calls w @ [?e0]\<rparr>"
  from make_public_ok[OF mp] obtain sub sid gw rt wa wb where
    sn: "sn = Some sub" and sid: "SubnetId sub = Some sid"
    and g: "createInternetGateway svc (VPCID ev) ?w0 = (Returned (Inr gw), wa)"
    and r: "createRouteTable svc (VPCID ev) sid wa = (Returned (Inr rt), wb)"
    and c: "calls w2 = calls wb @ [CreateRouteCall (RouteTableId rt) ''0.0.0.0/0'' (InternetGatewayId gw),
                               ModifySubnetAttributeCall (Some sid) True]"
    by blast
  from createInternetGateway_ok[OF g] obtain gws c2 where
    dg: "DescribeInternetGateways svc [(''attachment.vpc-id'', [VPCID ev])] c1 = (Inr gws, c2)"
    and gstep: "if gws = []
         then (\<exists>ca. CreateInternetGateway svc c2 = (Inr (Some gw), ca)
                 \<and> AttachInternetGateway svc (InternetGatewayId gw) (VPCID ev) ca = (None, cloud wa))
         else gw = gws ! 0 \<and> cloud wa = c2"
    and gc: "calls wa = calls ?w0 @ [DescribeInternetGatewaysCall [(''attachment.vpc-id'', [VPCID ev])]]
          @ (if gws = [] then [CreateInternetGatewayCall,
                               AttachInternetGatewayCall (InternetGatewayId gw) (VPCID ev)] else [])"
    by (auto split: if_splits)
  from createRouteTable_ok[OF r] obtain rts c4 where
    dr: "DescribeRouteTables svc [(''association.subnet-id'', [sid])] (cloud wa) = (Inr rts, c4)"
    and rstep: "if rts = []
         then (\<exists>cb cc. CreateRouteTable svc (VPCID ev) c4 = (Inr (Some rt), cb)
                 \<and> AssociateRouteTable svc (RouteTableId rt) sid cb = (None, cc))
         else rt = rts ! 0"
    and rc: "calls wb = calls wa @ [DescribeRouteTablesCall [(''association.subnet-id'', [sid])]]
          @ (if rts = [] then [CreateRouteTableCall (VPCID ev),
                               AssociateRouteTableCall (RouteTableId rt) sid] else [])"
    by (auto split: if_splits)
  have tr: "calls w' = calls w
          @ [?e0, DescribeInternetGatewaysCall [(''attachment.vpc-id'', [VPCID ev])]]
          @ (if gws = [] then [CreateInternetGatewayCall,
                               AttachInternetGatewayCall (InternetGatewayId gw) (VPCID ev)]
             else [])
          @ [DescribeRouteTablesCall [(''association.subnet-id'', [sid])]]
          @ (if rts = [] then [CreateRouteTableCall (VPCID ev),
                               AssociateRouteTableCall (RouteTableId rt) sid]
             else [])
          @ [CreateRouteCall (RouteTableId rt) ''0.0.0.0/0'' (InternetGatewayId gw),
             ModifySubnetAttributeCall (Some sid) True]"
    using w' c rc gc by simp
  show ?thesis
    unfolding svc_def[symmetric]
    apply (rule exI[of _ sub], rule exI[of _ sid], rule exI[of _ c1], rule exI[of _ gws],
           rule exI[of _ c2], rule exI[of _ gw], rule exI[of _ "cloud wa"], rule exI[of _ rts],
           rule exI[of _ c4], rule exI[of _ rt])
    using cs sn sid dg gstep dr rstep tr
    apply (intro conjI)
          apply simp_all
    done
qed

section \<open>Delete\<close>

lemma getNetworkInterfaces_alt:
  "getNetworkInterfaces svc networkID w =
     (fst (DescribeNetworkInterfaces svc [(''subnet-id'', [networkID])] (cloud w)),
      w\<lparr>cloud := snd (DescribeNetworkInterfaces svc [(''subnet-id'', [networkID])] (cloud w)),
        calls := calls w @ [DescribeNetworkInterfacesCall [(''subnet-id'', [networkID])]]\<rparr>)"
  by (simp add: getNetworkInterfaces_def invoke_def Let_def split: prod.splits)

lemma after_polls_calls:
  "calls (after_polls svc networkID k w) = calls w @ poll_rounds networkID k"
  by (induction k arbitrary: w)
     (simp_all add: poll_rounds_def getNetworkInterfaces_alt time_Sleep_def)

lemma after_polls_pubs: "pubs (after_polls svc networkID k w) = pubs w"
  by (induction k arbitrary: w) (simp_all add: getNetworkInterfaces_alt time_Sleep_def)

lemma polls_busy_0 [simp]: "polls_busy svc networkID 0 w"
  by (simp add: polls_busy_def)

lemma polls_busy_Suc:
  "polls_busy svc networkID (Suc k) w \<longleftrightarrow>
     (case fst (getNetworkInterfaces svc networkID w) of Inl e \<Rightarrow> False | Inr resp \<Rightarrow> resp \<noteq> [])
     \<and> polls_busy svc networkID k (time_Sleep 1 (snd (getNetworkInterfaces svc networkID w)))"
proof -
  have "(\<forall>j<Suc k. P j) \<longleftrightarrow> P 0 \<and> (\<forall>j<k. P (Suc j))" for P
    by (metis less_Suc_eq_0_disj)
  then show ?thesis by (simp add: polls_busy_def)
qed

lemma wait_step:
  assumes "fst (getNetworkInterfaces svc networkID w) = Inr resp" "resp \<noteq> []"
  shows "waitForInterfaceRemoval svc networkID w =
         waitForInterfaceRemoval svc networkID (time_Sleep 1 (snd (getNetworkInterfaces svc networkID w)))"
proof -
  obtain w1 where g: "getNetworkInterfaces svc networkID w = (Inr resp, w1)"
    using assms(1) by (cases "getNetworkInterfaces svc networkID w") simp
  have "waitForInterfaceRemoval svc networkID w =
     (case getNetworkInterfaces svc networkID w of
        (Inl e, w1) \<Rightarrow> Some (Some e, w1)
      | (Inr resp, w1) \<Rightarrow>
          (if length resp = 0 then Some (None, w1)
           else waitForInterfaceRemoval svc networkID (time_Sleep 1 w1)))"
    by (rule waitForInterfaceRemoval.simps)
  also have "\<dots> = waitForInterfaceRemoval svc networkID (time_Sleep 1 w1)"
    using g assms(2) by simp
  finally show ?thesis using g by simp
qed

lemma wait_rounds:
  "polls_busy svc networkID k w \<Longrightarrow>
   waitForInterfaceRemoval svc networkID w =
   waitForInterfaceRemoval svc networkID (after_polls svc networkID k w)"
proof (induction k arbitrary: w)
  case 0
  then show ?case by simp
next
  case (Suc k)
  from Suc.prems obtain resp where
    r: "fst (getNetworkInterfaces svc networkID w) = Inr resp" "resp \<noteq> []"
    and b: "polls_busy svc networkID k (time_Sleep 1 (snd (getNetworkInterfaces svc networkID w)))"
    by (auto simp: polls_busy_Suc split: sum.splits)
  from wait_step[OF r] Suc.IH[OF b] show ?case by simp
qed

lemma wait_done:
  "getNetworkInterfaces svc networkID w = (Inr [], w1) \<Longrightarrow>
   waitForInterfaceRemoval svc networkID w = Some (None, w1)"
  by (subst waitForInterfaceRemoval.simps) simp

lemma wait_error:
  "getNetworkInterfaces svc networkID w = (Inl e, w1) \<Longrightarrow>
   waitForInterfaceRemoval svc networkID w = Some (Some e, w1)"
  by (subst waitForInterfaceRemoval.simps) simp


lemma wait_returns:
  assumes "waitForInterfaceRemoval svc networkID w = Some y"
  shows "\<exists>k. polls_busy svc networkID k w
             \<and> poll_ends svc networkID (after_polls svc networkID k w) y"
  using assms
proof (induction svc networkID w y
       rule: waitForInterfaceRemoval.raw_induct[rotated 1, consumes 1, case_names step])
  case (step wait svc networkID w y)
  obtain r0 w0 where g: "getNetworkInterfaces svc networkID w = (r0, w0)"
    by (cases "getNetworkInterfaces svc networkID w")
  show ?case
  proof (cases r0)
    case (Inl e)
    with step(2) g have "y = (Some e, w0)" by simp
    with g Inl have "polls_busy svc networkID 0 w
        \<and> poll_ends svc networkID (after_polls svc networkID 0 w) y"
      by (simp add: poll_ends_def)
    then show ?thesis by (rule exI)
  next
    case (Inr resp)
    show ?thesis
    proof (cases "resp = []")
      case True
      with step(2) g Inr have "y = (None, w0)" by simp
      with g Inr True have "polls_busy svc networkID 0 w
          \<and> poll_ends svc networkID (after_polls svc networkID 0 w) y"
        by (simp add: poll_ends_def)
      then show ?thesis by (rule exI)
    next
      case False
      with step(2) g Inr have "wait svc networkID (time_Sleep 1 w0) = Some y" by simp
      from step(1)[OF this] obtain k where
        b: "polls_busy svc networkID k (time_Sleep 1 w0)"
        and f: "poll_ends svc networkID (after_polls svc networkID k (time_Sleep 1 w0)) y"
        by blast
      from b g Inr False have "polls_busy svc networkID (Suc k) w"
        by (simp add: polls_busy_Suc)
      moreover from f g have "poll_ends svc networkID (after_polls svc networkID (Suc k) w) y"
        by simp
      ultimately show ?thesis by blast
    qed
  qed
qed

lemma wait_ends:
  assumes "polls_busy svc networkID k w"
    and "poll_ends svc networkID (after_polls svc networkID k w) y"
  shows "waitForInterfaceRemoval svc networkID w = Some y"
proof -
  obtain r0 w0 where g: "getNetworkInterfaces svc networkID (after_polls svc networkID k w) = (r0, w0)"
    by (cases "getNetworkInterfaces svc networkID (after_polls svc networkID k w)")
  have "waitForInterfaceRemoval svc networkID (after_polls svc networkID k w) = Some y"
  proof (cases r0)
    case (Inl e)
    with assms(2) g wait_error[of svc networkID _ e w0] show ?thesis
      by (simp add: poll_ends_def)
  next
    case (Inr resp)
    with assms(2) g wait_done[of svc networkID _ w0] show ?thesis
      by (simp add: poll_ends_def)
  qed
  with wait_rounds[OF assms(1)] show ?thesis by simp
qed

lemma wait_iff:
  "waitForInterfaceRemoval svc networkID w = Some y \<longleftrightarrow>
     (\<exists>k. polls_busy svc networkID k w
          \<and> poll_ends svc networkID (after_polls svc networkID k w) y)"
  using wait_returns wait_ends by blast

lemma poll_ends_calls:
  "poll_ends svc networkID w (r, w1) \<Longrightarrow>
   calls w1 = calls w @ [DescribeNetworkInterfacesCall [(''subnet-id'', [networkID])]]
   \<and> pubs w1 = pubs w"
  by (auto simp: poll_ends_def getNetworkInterfaces_alt split: sum.splits)

text \<open>
  Claim C4. \<open>Delete\<close> returns exactly when, after some number \<open>k\<close> of queries that
  found interfaces (each followed by a sleep of one second), the next query fails or
  finds none. When it fails, that error is the result and \<open>DeleteSubnet\<close> is not
  invoked. When it finds none, \<open>DeleteSubnet\<close> is invoked once, as the last operation,
  and its error (or \<open>nil\<close>) is the result. The trace holds nothing else: queries
  filtered by the subnet id, sleeps, and at most that one \<open>DeleteSubnet\<close>.
\<close>

theorem delete_polls_then_deletes_once:
  "Delete env ev w = Some (r, w') \<longleftrightarrow>
     (let svc = ec2_New env (DatacenterRegion ev) (DatacenterAccessKey ev)
                  (DatacenterAccessToken ev);
          query = DescribeNetworkInterfacesCall [(''subnet-id'', [NetworkAWSID ev])]
      in \<exists>k. polls_busy svc (NetworkAWSID ev) k w
           \<and> (case getNetworkInterfaces svc (NetworkAWSID ev)
                       (after_polls svc (NetworkAWSID ev) k w) of
                (Inl e, w1) \<Rightarrow>
                   r = Some e \<and> w' = w1
                   \<and> calls w' = calls w @ poll_rounds (NetworkAWSID ev) k @ [query]
              | (Inr resp, w1) \<Rightarrow>
                   resp = []
                   \<and> (r, w') = invoke (DeleteSubnetCall (NetworkAWSID ev))
                                       (DeleteSubnet svc (NetworkAWSID ev)) w1
                   \<and> calls w' = calls w @ poll_rounds (NetworkAWSID ev) k
                                  @ [query, DeleteSubnetCall (NetworkAWSID ev)]))"
proof -
  define svc where "svc = ec2_New env (DatacenterRegion ev) (DatacenterAccessKey ev)
                  (DatacenterAccessToken ev)"
  define i where "i = NetworkAWSID ev"
  define q where "q = DescribeNetworkInterfacesCall [(''subnet-id'', [i])]"
  have D: "Delete env ev w =
     (case waitForInterfaceRemoval svc i w of
        None \<Rightarrow> None
      | Some (Some e, w1) \<Rightarrow> Some (Some e, w1)
      | Some (None, w1) \<Rightarrow> Some (invoke (DeleteSubnetCall i) (DeleteSubnet svc i) w1))"
    unfolding Delete_def svc_def i_def Let_def by (rule refl)
  have tr: "calls w1 = calls w @ poll_rounds i k @ [q]"
    if "poll_ends svc i (after_polls svc i k w) (x, w1)" for k x w1
    using poll_ends_calls[OF that] by (simp add: after_polls_calls q_def)
  have "Delete env ev w = Some (r, w') \<longleftrightarrow>
     (\<exists>k. polls_busy svc i k w
           \<and> (case getNetworkInterfaces svc i (after_polls svc i k w) of
                (Inl e, w1) \<Rightarrow> r = Some e \<and> w' = w1 \<and> calls w' = calls w @ poll_rounds i k @ [q]
              | (Inr resp, w1) \<Rightarrow>
                   resp = []
                   \<and> (r, w') = invoke (DeleteSubnetCall i) (DeleteSubnet svc i) w1
                   \<and> calls w' = calls w @ poll_rounds i k @ [q, DeleteSubnetCall i]))"
    (is "?L \<longleftrightarrow> ?R")
  proof
    assume L: ?L
    then obtain y where wy: "waitForInterfaceRemoval svc i w = Some y"
      by (auto simp: D split: option.splits)
    from wait_returns[OF wy] obtain k where
      b: "polls_busy svc i k w" and pe: "poll_ends svc i (after_polls svc i k w) y" by blast
    obtain x w1 where y: "y = (x, w1)" by (cases y)
    note c = tr[OF pe[unfolded y]]
    have c2: "case getNetworkInterfaces svc i (after_polls svc i k w) of
                (Inl e, w1) \<Rightarrow> r = Some e \<and> w' = w1 \<and> calls w' = calls w @ poll_rounds i k @ [q]
              | (Inr resp, w1) \<Rightarrow>
                   resp = []
                   \<and> (r, w') = invoke (DeleteSubnetCall i) (DeleteSubnet svc i) w1
                   \<and> calls w' = calls w @ poll_rounds i k @ [q, DeleteSubnetCall i]"
      using L wy pe c y
      by (auto simp: D poll_ends_def invoke_def split: prod.splits sum.splits option.splits)
    show ?R by (rule exI[of _ k], rule conjI[OF b c2])
  next
    assume ?R
    then obtain k where b: "polls_busy svc i k w"
      and f: "case getNetworkInterfaces svc i (after_polls svc i k w) of
                (Inl e, w1) \<Rightarrow> r = Some e \<and> w' = w1 \<and> calls w' = calls w @ poll_rounds i k @ [q]
              | (Inr resp, w1) \<Rightarrow>
                   resp = []
                   \<and> (r, w') = invoke (DeleteSubnetCall i) (DeleteSubnet svc i) w1
                   \<and> calls w' = calls w @ poll_rounds i k @ [q, DeleteSubnetCall i]"
      by (elim exE conjE) (rule that)
    obtain r0 w0 where g: "getNetworkInterfaces svc i (after_polls svc i k w) = (r0, w0)"
      by (cases "getNetworkInterfaces svc i (after_polls svc i k w)")
    show ?L
    proof (cases r0)
      case (Inl e)
      with g have "poll_ends svc i (after_polls svc i k w) (Some e, w0)"
        by (simp add: poll_ends_def)
      from wait_ends[OF b this] f g Inl show ?thesis by (simp add: D)
    next
      case (Inr resp)
      with f g have "poll_ends svc i (after_polls svc i k w) (None, w0)"
        by (simp add: poll_ends_def)
      from wait_ends[OF b this] f g Inr show ?thesis by (simp add: D)
    qed
  qed
  then show ?thesis unfolding Let_def svc_def i_def q_def .
qed



subsection \<open>Create and Delete on the sample service\<close>

theorem create_private_single_call_witness:
  "\<not> IsPublic (testEvent ''network.create.aws'' False)
   \<and> Create sample_env (testEvent ''network.create.aws'' False) world0 =
       (Returned (None, (testEvent ''network.create.aws'' False)
                          \<lparr>NetworkAWSID := ''subnet-00000000'', AvailabilityZone := ''eu-west-1a''\<rparr>),
        world0\<lparr>cloud := 2,
                calls := calls world0 @ [CreateSubnetCall ''vpc-0000000'' ''10.0.0.0/16'' '''']\<rparr>)"
proof -
  let ?ev = "testEvent ''network.create.aws'' False"
  have h: "\<not> IsPublic ?ev" by (simp add: testEvent_def)
  have "\<exists>sub sid az c'.
        CreateSubnet (ec2_New sample_env (DatacenterRegion ?ev) (DatacenterAccessKey ?ev)
                        (DatacenterAccessToken ?ev))
          (VPCID ?ev) (Subnet ?ev) (AvailabilityZone ?ev) (cloud world0)
          = (Inr (Some sub), c')
        \<and> SubnetId sub = Some sid \<and> SubnetAvailabilityZone sub = Some az
        \<and> ?ev\<lparr>NetworkAWSID := ''subnet-00000000'', AvailabilityZone := ''eu-west-1a''\<rparr>
            = ?ev\<lparr>NetworkAWSID := sid, AvailabilityZone := az\<rparr>
        \<and> world0\<lparr>cloud := 2,
                calls := calls world0 @ [CreateSubnetCall ''vpc-0000000'' ''10.0.0.0/16'' '''']\<rparr>
            = world0\<lparr>cloud := c',
                  calls := calls world0 @ [CreateSubnetCall (VPCID ?ev) (Subnet ?ev) (AvailabilityZone ?ev)]\<rparr>"
    by (simp add: sample_env_def sample_ec2_def world0_def testEvent_def)
  from iffD2[OF create_private_single_call[OF h] this] h show ?thesis by simp
qed

lemma sample_create_public:
  "Create sample_env (testEvent ''network.create.aws'' True) world0 =
     (Returned (None, (testEvent ''network.create.aws'' True)
                          \<lparr>NetworkAWSID := ''subnet-00000000'', AvailabilityZone := ''eu-west-1a''\<rparr>),
      world0\<lparr>calls :=
         [CreateSubnetCall ''vpc-0000000'' ''10.0.0.0/16'' '''',
          DescribeInternetGatewaysCall [(''attachment.vpc-id'', [''vpc-0000000''])],
          CreateInternetGatewayCall,
          AttachInternetGatewayCall (Some ''igw-1'') ''vpc-0000000'',
          DescribeRouteTablesCall [(''association.subnet-id'', [''subnet-00000000''])],
          CreateRouteTableCall ''vpc-0000000'',
          AssociateRouteTableCall (Some ''rtb-1'') ''subnet-00000000'',
          CreateRouteCall (Some ''rtb-1'') ''0.0.0.0/0'' (Some ''igw-1''),
          ModifySubnetAttributeCall (Some ''subnet-00000000'') True]\<rparr>)"
  by (simp add: Create_def make_public_def createInternetGateway_def createRouteTable_def
      internetGatewayByVPCID_def routingTableBySubnetID_def createGatewayRoutes_def
      store_result_def invoke_def sample_env_def sample_ec2_def world0_def testEvent_def)

theorem delete_polls_then_deletes_once_witness:
  "Delete sample_env (testEvent ''network.delete.aws'' False) world0 =
     Some (None, \<lparr>cloud = 0,
                  calls = [DescribeNetworkInterfacesCall [(''subnet-id'', [''subnet-00000000''])], Sleep 1,
                           DescribeNetworkInterfacesCall [(''subnet-id'', [''subnet-00000000''])], Sleep 1,
                           DescribeNetworkInterfacesCall [(''subnet-id'', [''subnet-00000000''])],
                           DeleteSubnetCall ''subnet-00000000''],
                  pubs = []\<rparr>)"
proof -
  let ?ev = "testEvent ''network.delete.aws'' False"
  have i: "NetworkAWSID ?ev = ''subnet-00000000''" by (simp add: testEvent_def)
  have s: "ec2_New sample_env (DatacenterRegion ?ev) (DatacenterAccessKey ?ev)
                  (DatacenterAccessToken ?ev) = sample_ec2" by (simp add: sample_env_def)
  have two: "(2::nat) = Suc (Suc 0)" by simp
  show ?thesis
    apply (rule iffD2[OF delete_polls_then_deletes_once])
    apply (simp only: Let_def i s)
    apply (rule exI[of _ 2])
    apply (simp add: two polls_busy_Suc getNetworkInterfaces_alt sample_ec2_def world0_def
             time_Sleep_def poll_rounds_def invoke_def)
    done
qed


theorem create_public_call_order_witness:
  "IsPublic (testEvent ''network.create.aws'' True)
   \<and> Create sample_env (testEvent ''network.create.aws'' True) world0 =
     (Returned (None, (testEvent ''network.create.aws'' True)
                          \<lparr>NetworkAWSID := ''subnet-00000000'', AvailabilityZone := ''eu-west-1a''\<rparr>),
      (world0\<lparr>calls :=
         [CreateSubnetCall ''vpc-0000000'' ''10.0.0.0/16'' '''',
          DescribeInternetGatewaysCall [(''attachment.vpc-id'', [''vpc-0000000''])],
          CreateInternetGatewayCall,
          AttachInternetGatewayCall (Some ''igw-1'') ''vpc-0000000'',
          DescribeRouteTablesCall [(''association.subnet-id'', [''subnet-00000000''])],
          CreateRouteTableCall ''vpc-0000000'',
          AssociateRouteTableCall (Some ''rtb-1'') ''subnet-00000000'',
          CreateRouteCall (Some ''rtb-1'') ''0.0.0.0/0'' (Some ''igw-1''),
          ModifySubnetAttributeCall (Some ''subnet-00000000'') True]\<rparr>))
   \<and> (\<exists>sub sid c1 gws c2 gw c3 rts c4 rt.
       CreateSubnet (ec2_New sample_env (DatacenterRegion (testEvent ''network.create.aws'' True)) (DatacenterAccessKey (testEvent ''network.create.aws'' True))
                       (DatacenterAccessToken (testEvent ''network.create.aws'' True)))
         (VPCID (testEvent ''network.create.aws'' True)) (Subnet (testEvent ''network.create.aws'' True)) (AvailabilityZone (testEvent ''network.create.aws'' True)) (cloud world0) = (Inr (Some sub), c1)
     \<and> SubnetId sub = Some sid
     \<and> DescribeInternetGateways (ec2_New sample_env (DatacenterRegion (testEvent ''network.create.aws'' True)) (DatacenterAccessKey (testEvent ''network.create.aws'' True))
                       (DatacenterAccessToken (testEvent ''network.create.aws'' True)))
         [(''attachment.vpc-id'', [VPCID (testEvent ''network.create.aws'' True)])] c1 = (Inr gws, c2)
     \<and> (if gws = []
         then (\<exists>ca. CreateInternetGateway (ec2_New sample_env (DatacenterRegion (testEvent ''network.create.aws'' True))
                        (DatacenterAccessKey (testEvent ''network.create.aws'' True)) (DatacenterAccessToken (testEvent ''network.create.aws'' True))) c2
                        = (Inr (Some gw), ca)
                 \<and> AttachInternetGateway (ec2_New sample_env (DatacenterRegion (testEvent ''network.create.aws'' True))
                        (DatacenterAccessKey (testEvent ''network.create.aws'' True)) (DatacenterAccessToken (testEvent ''network.create.aws'' True)))
                        (InternetGatewayId gw) (VPCID (testEvent ''network.create.aws'' True)) ca = (None, c3))
         else gw = gws ! 0 \<and> c3 = c2)
     \<and> DescribeRouteTables (ec2_New sample_env (DatacenterRegion (testEvent ''network.create.aws'' True)) (DatacenterAccessKey (testEvent ''network.create.aws'' True))
                       (DatacenterAccessToken (testEvent ''network.create.aws'' True)))
         [(''association.subnet-id'', [sid])] c3 = (Inr rts, c4)
     \<and> (if rts = []
         then (\<exists>cb cc. CreateRouteTable (ec2_New sample_env (DatacenterRegion (testEvent ''network.create.aws'' True))
                        (DatacenterAccessKey (testEvent ''network.create.aws'' True)) (DatacenterAccessToken (testEvent ''network.create.aws'' True))) (VPCID (testEvent ''network.create.aws'' True)) c4
                        = (Inr (Some rt), cb)
                 \<and> AssociateRouteTable (ec2_New sample_env (DatacenterRegion (testEvent ''network.create.aws'' True))
                        (DatacenterAccessKey (testEvent ''network.create.aws'' True)) (DatacenterAccessToken (testEvent ''network.create.aws'' True)))
                        (RouteTableId rt) sid cb = (None, cc))
         else rt = rts ! 0)
     \<and> calls (world0\<lparr>calls :=
         [CreateSubnetCall ''vpc-0000000'' ''10.0.0.0/16'' '''',
          DescribeInternetGatewaysCall [(''attachment.vpc-id'', [''vpc-0000000''])],
          CreateInternetGatewayCall,
          AttachInternetGatewayCall (Some ''igw-1'') ''vpc-0000000'',
          DescribeRouteTablesCall [(''association.subnet-id'', [''subnet-00000000''])],
          CreateRouteTableCall ''vpc-0000000'',
          AssociateRouteTableCall (Some ''rtb-1'') ''subnet-00000000'',
          CreateRouteCall (Some ''rtb-1'') ''0.0.0.0/0'' (Some ''igw-1''),
          ModifySubnetAttributeCall (Some ''subnet-00000000'') True]\<rparr>) = calls world0
          @ [CreateSubnetCall (VPCID (testEvent ''network.create.aws'' True)) (Subnet (testEvent ''network.create.aws'' True)) (AvailabilityZone (testEvent ''network.create.aws'' True)),
             DescribeInternetGatewaysCall [(''attachment.vpc-id'', [VPCID (testEvent ''network.create.aws'' True)])]]
          @ (if gws = [] then [CreateInternetGatewayCall,
                               AttachInternetGatewayCall (InternetGatewayId gw) (VPCID (testEvent ''network.create.aws'' True))]
             else [])
          @ [DescribeRouteTablesCall [(''association.subnet-id'', [sid])]]
          @ (if rts = [] then [CreateRouteTableCall (VPCID (testEvent ''network.create.aws'' True)),
                               AssociateRouteTableCall (RouteTableId rt) sid]
             else [])
          @ [CreateRouteCall (RouteTableId rt) ''0.0.0.0/0'' (InternetGatewayId gw),
             ModifySubnetAttributeCall (Some sid) True])"
proof -
  have h1: "IsPublic (testEvent ''network.create.aws'' True)" by (simp add: testEvent_def)
  note h2 = sample_create_public
  from create_public_call_order[OF h1 h2] h1 h2 show ?thesis by blast
qed

section \<open>The handler as a whole\<close>

subsection \<open>What the handlers leave alone\<close>

lemma invoke_alt:
  "invoke e f w = (fst (f (cloud w)), w\<lparr>cloud := snd (f (cloud w)), calls := calls w @ [e]\<rparr>)"
  by (simp add: invoke_def split: prod.splits)

lemma createInternetGateway_pubs: "pubs (snd (createInternetGateway svc vpc w)) = pubs w"
  by (simp add: createInternetGateway_def internetGatewayByVPCID_def invoke_alt Let_def
           split: sum.splits option.splits)

lemma createRouteTable_pubs: "pubs (snd (createRouteTable svc vpc subnet w)) = pubs w"
  by (simp add: createRouteTable_def routingTableBySubnetID_def invoke_alt Let_def
           split: sum.splits option.splits)

lemma make_public_pubs: "pubs (snd (make_public svc ev sn w)) = pubs w"
proof -
  obtain r1 w1 where g: "createInternetGateway svc (VPCID ev) w = (r1, w1)"
    by (cases "createInternetGateway svc (VPCID ev) w")
  from createInternetGateway_pubs[of svc "VPCID ev" w] g have p1: "pubs w1 = pubs w" by simp
  have rt: "\<And>sid. pubs (snd (createRouteTable svc (VPCID ev) sid w1)) = pubs w"
    using createRouteTable_pubs[of svc "VPCID ev" _ w1] p1 by simp
  show ?thesis
    using g p1 rt
    apply (simp add: make_public_def createGatewayRoutes_def invoke_alt
           split: outcome.splits sum.splits option.splits prod.splits)
    apply (auto simp: prod_eq_iff)
    done
qed

lemma Create_pubs: "pubs (snd (Create env ev w)) = pubs w"
proof -
  define svc where "svc = ec2_New env (DatacenterRegion ev) (DatacenterAccessKey ev)
                       (DatacenterAccessToken ev)"
  define e where "e = CreateSubnetCall (VPCID ev) (Subnet ev) (AvailabilityZone ev)"
  obtain r1 w1 where i: "invoke e (CreateSubnet svc (VPCID ev) (Subnet ev) (AvailabilityZone ev)) w = (r1, w1)"
    by (cases "invoke e (CreateSubnet svc (VPCID ev) (Subnet ev) (AvailabilityZone ev)) w")
  then have p1: "pubs w1 = pubs w" by (auto simp: invoke_alt)
  have mp: "\<And>sn. pubs (snd (make_public svc ev sn w1)) = pubs w"
    using make_public_pubs[of svc ev _ w1] p1 by simp
  show ?thesis
    using i p1 mp unfolding Create_def Let_def svc_def[symmetric] e_def[symmetric]
    by (auto split: outcome.splits sum.splits option.splits prod.splits simp: prod_eq_iff)
qed

text \<open>\<open>Create\<close> changes nothing of the envelope but the two result fields.\<close>

lemma store_result_keeps:
  "store_result sn ev = Returned (e, ev') \<Longrightarrow>
   \<exists>sid az. ev' = ev\<lparr>NetworkAWSID := sid, AvailabilityZone := az\<rparr>"
  by (auto simp: store_result_def split: option.splits)

lemma Create_keeps:
  assumes "Create env ev w = (Returned (e, ev'), w')"
  shows "ev' = ev \<or> (\<exists>sid az. ev' = ev\<lparr>NetworkAWSID := sid, AvailabilityZone := az\<rparr>)"
proof -
  define svc where "svc = ec2_New env (DatacenterRegion ev) (DatacenterAccessKey ev)
                       (DatacenterAccessToken ev)"
  define c where "c = CreateSubnetCall (VPCID ev) (Subnet ev) (AvailabilityZone ev)"
  obtain r1 w1 where i: "invoke c (CreateSubnet svc (VPCID ev) (Subnet ev) (AvailabilityZone ev)) w = (r1, w1)"
    by (cases "invoke c (CreateSubnet svc (VPCID ev) (Subnet ev) (AvailabilityZone ev)) w")
  show ?thesis
  proof (cases r1)
    case (Inl x)
    with assms i show ?thesis by (simp add: Create_def Let_def svc_def c_def)
  next
    case (Inr sn)
    obtain r2 w2 where mp: "make_public svc ev sn w1 = (r2, w2)"
      by (cases "make_public svc ev sn w1")
    from assms i Inr mp have "ev' = ev \<or> store_result sn ev = Returned (e, ev')"
      by (auto simp: Create_def Let_def svc_def c_def split: if_splits outcome.splits option.splits)
    with store_result_keeps show ?thesis by blast
  qed
qed

lemma Delete_pubs:
  assumes "Delete env ev w = Some (r, w')"
  shows "pubs w' = pubs w"
proof -
  define svc where "svc = ec2_New env (DatacenterRegion ev) (DatacenterAccessKey ev)
                  (DatacenterAccessToken ev)"
  define i where "i = NetworkAWSID ev"
  have D: "Delete env ev w =
     (case waitForInterfaceRemoval svc i w of
        None \<Rightarrow> None
      | Some (Some e, w1) \<Rightarrow> Some (Some e, w1)
      | Some (None, w1) \<Rightarrow> Some (invoke (DeleteSubnetCall i) (DeleteSubnet svc i) w1))"
    unfolding Delete_def svc_def i_def Let_def by (rule refl)
  from assms obtain x w1 where wy: "waitForInterfaceRemoval svc i w = Some (x, w1)"
    by (auto simp: D split: option.splits)
  from wait_returns[OF wy] obtain k where
    pe: "poll_ends svc i (after_polls svc i k w) (x, w1)" by blast
  from poll_ends_calls[OF pe] have "pubs w1 = pubs w" by (simp add: after_polls_pubs)
  with assms wy show ?thesis
    by (auto simp: D invoke_alt split: option.splits)
qed

subsection \<open>The paths of the handler\<close>

lemma eventHandler_cases:
  "eventHandler env subj data w =
     (case Unmarshal (json_lib env) data (New subj data) of
        (Some e, n) \<Rightarrow> Some (Returned (), w\<lparr>pubs := pubs w @ [(subj @ ''.error'', data)]\<rparr>)
      | (None, n) \<Rightarrow>
          (case Validate n of
             Some e \<Rightarrow> Some (map_prod (map_outcome (\<lambda>_. ())) id (Error (json_lib env) e n w))
           | None \<Rightarrow>
               (case action_of subj of
                  None \<Rightarrow> Some (Panicked ''index out of range'', w)
                | Some a \<Rightarrow>
                  (case dispatch env a n w of
                     None \<Rightarrow> None
                   | Some (Panicked p, w2) \<Rightarrow> Some (Panicked p, w2)
                   | Some (Returned (Some e, n2), w2) \<Rightarrow>
                       Some (map_prod (map_outcome (\<lambda>_. ())) id (Error (json_lib env) e n2 w2))
                   | Some (Returned (None, n2), w2) \<Rightarrow>
                       Some (map_prod (map_outcome (\<lambda>_. ())) id (Complete (json_lib env) n2 w2))))))"
proof -
  obtain r n where u: "Unmarshal (json_lib env) data (New subj data) = (r, n)"
    by (cases "Unmarshal (json_lib env) data (New subj data)")
  show ?thesis
  proof (cases r)
    case None
    with u show ?thesis
      by (simp add: eventHandler_def Process_ok action_of_def Let_def split: option.splits)
  next
    case (Some e)
    with u show ?thesis
      by (simp add: eventHandler_def Process_fail Publish_def)
  qed
qed


lemma dispatch_keeps:
  assumes "dispatch env a n w = Some (Returned (e, n2), w2)"
  shows "pubs w2 = pubs w \<and> subject n2 = subject n
       \<and> DatacenterRegion n2 = DatacenterRegion n
       \<and> DatacenterAccessKey n2 = DatacenterAccessKey n
       \<and> DatacenterAccessToken n2 = DatacenterAccessToken n"
proof (cases "a = ''create''")
  case True
  with assms have c: "Create env n w = (Returned (e, n2), w2)" by (simp add: dispatch_def)
  from Create_pubs[of env n w] c have "pubs w2 = pubs w" by simp
  with Create_keeps[OF c] show ?thesis by auto
next
  case False
  show ?thesis
  proof (cases "a = ''delete''")
    case True
    with assms obtain x where d: "Delete env n w = Some (x, w2)" and "n2 = n"
      by (auto simp: dispatch_def split: option.splits)
    with Delete_pubs[OF d] show ?thesis by simp
  next
    case nd: False
    with False assms show ?thesis by (auto simp: dispatch_def split: if_splits)
  qed
qed


lemma Error_published:
  assumes "Marshal js (n\<lparr>ErrorMessage := Error_msg e\<rparr>) = Inr d"
  shows "Error js e n w =
           (Returned (n\<lparr>ErrorMessage := Error_msg e\<rparr>),
            w\<lparr>pubs := pubs w @ [(subject n @ ''.error'', d)]\<rparr>)"
  using assms by (simp add: Error_def Let_def Publish_def)

lemma Complete_published:
  assumes "Marshal js n = Inr d"
  shows "Complete js n w = (Returned n, w\<lparr>pubs := pubs w @ [(subject n @ ''.done'', d)]\<rparr>)"
  using assms by (simp add: Complete_def Publish_def)

lemma creds_in_fields:
  "(''datacenter_region'', JString (DatacenterRegion ev)) \<in> set (json_fields ev)
   \<and> (''datacenter_secret'', JString (DatacenterAccessKey ev)) \<in> set (json_fields ev)
   \<and> (''datacenter_token'', JString (DatacenterAccessToken ev)) \<in> set (json_fields ev)"
  by (simp add: json_fields_def)

subsection \<open>Decode failures\<close>




lemma returned_after_decode:
  assumes ser: "\<forall>ev. \<exists>d. Marshal (json_lib env) ev = Inr d"
    and dec: "Unmarshal (json_lib env) data (New subj data) = (None, n)"
    and run: "eventHandler env subj data w = Some (Returned (), w')"
  shows "\<exists>topic d ev'. pubs w' = pubs w @ [(topic, d)]
           \<and> (topic = subj @ ''.done'' \<or> topic = subj @ ''.error'')
           \<and> Marshal (json_lib env) ev' = Inr d
           \<and> DatacenterRegion ev' = DatacenterRegion n
           \<and> DatacenterAccessKey ev' = DatacenterAccessKey n
           \<and> DatacenterAccessToken ev' = DatacenterAccessToken n"
proof -
  from Unmarshal_subject_body[OF dec] have sn: "subject n = subj" by simp
  show ?thesis
  proof (cases "Validate n")
    case (Some e)
    from ser obtain d where m: "Marshal (json_lib env) (n\<lparr>ErrorMessage := Error_msg e\<rparr>) = Inr d"
      by blast
    from Error_published[OF m, of w] run dec Some sn
    have "pubs w' = pubs w @ [(subj @ ''.error'', d)]"
      by (auto simp: eventHandler_cases)
    with m show ?thesis by fastforce
  next
    case v: None
    from run dec v obtain a where a: "action_of subj = Some a"
      by (cases "action_of subj") (auto simp: eventHandler_cases)
    from run dec v a obtain x n2 w2 where
      d: "dispatch env a n w = Some (Returned (x, n2), w2)"
      by (auto simp: eventHandler_cases split: option.splits outcome.splits)
    from dispatch_keeps[OF d] sn have k: "pubs w2 = pubs w" "subject n2 = subj"
      and c: "DatacenterRegion n2 = DatacenterRegion n"
             "DatacenterAccessKey n2 = DatacenterAccessKey n"
             "DatacenterAccessToken n2 = DatacenterAccessToken n"
      by simp_all
    show ?thesis
    proof (cases x)
      case None
      from ser obtain dd where m: "Marshal (json_lib env) n2 = Inr dd" by blast
      from Complete_published[OF m, of w2] run dec v a d None k
      have "pubs w' = pubs w @ [(subj @ ''.done'', dd)]"
        by (auto simp: eventHandler_cases)
      with m c show ?thesis by fastforce
    next
      case (Some e)
      from ser obtain dd where m: "Marshal (json_lib env) (n2\<lparr>ErrorMessage := Error_msg e\<rparr>) = Inr dd"
        by blast
      from Error_published[OF m, of w2] run dec v a d Some k
      have "pubs w' = pubs w @ [(subj @ ''.error'', dd)]"
        by (auto simp: eventHandler_cases)
      with m c show ?thesis by fastforce
    qed
  qed
qed


lemma sample_serializes: "\<forall>ev. \<exists>d. Marshal (json_lib sample_env) ev = Inr d"
  by (simp add: Marshal_def sample_codec_def)

lemma busy_lib [simp]: "json_lib busy_env = sample_codec"
  by (simp add: busy_env_def)

lemma failing_lib [simp]: "json_lib failing_env = failing_codec"
  by (simp add: failing_env_def)

lemma sample_create_private:
  "Create sample_env (testEvent ''network.create.aws'' False) world0 =
     (Returned (None, (testEvent ''network.create.aws'' False)
                          \<lparr>NetworkAWSID := ''subnet-00000000'', AvailabilityZone := ''eu-west-1a''\<rparr>),
      world0\<lparr>calls := [CreateSubnetCall ''vpc-0000000'' ''10.0.0.0/16'' '''']\<rparr>)"
  by (simp add: Create_def store_result_def invoke_def sample_env_def sample_ec2_def
      world0_def testEvent_def)

lemma sample_handler_create:
  "eventHandler sample_env ''network.create.aws'' valid_payload world0 =
     Some (Returned (),
           world0\<lparr>calls := [CreateSubnetCall ''vpc-0000000'' ''10.0.0.0/16'' ''''],
                   pubs := [(''network.create.aws.done'',
                             plain_text (JObject (json_fields
                               ((testEvent ''network.create.aws'' False)
                                  \<lparr>NetworkAWSID := ''subnet-00000000'',
                                    AvailabilityZone := ''eu-west-1a''\<rparr>))))]\<rparr>)"
proof -
  have v: "Validate (testEvent ''network.create.aws'' False) = None"
    by (simp add: Validate_def testEvent_def)
  have a: "action_of ''network.create.aws'' = Some ''create''"
    by (simp add: action_of_def)
  have d: "dispatch sample_env ''create'' (testEvent ''network.create.aws'' False) world0
            = Some (Create sample_env (testEvent ''network.create.aws'' False) world0)"
    by (simp add: dispatch_def)
  have "eventHandler sample_env ''network.create.aws'' valid_payload world0 =
          Some (map_prod (map_outcome (\<lambda>_. ())) id
                  (Complete sample_codec
                     ((testEvent ''network.create.aws'' False)
                          \<lparr>NetworkAWSID := ''subnet-00000000'', AvailabilityZone := ''eu-west-1a''\<rparr>)
                     (world0\<lparr>calls := [CreateSubnetCall ''vpc-0000000'' ''10.0.0.0/16'' '''']\<rparr>)))"
    by (simp add: eventHandler_cases sample_decode_valid v a d sample_create_private)
  also have "\<dots> = Some (Returned (),
           world0\<lparr>calls := [CreateSubnetCall ''vpc-0000000'' ''10.0.0.0/16'' ''''],
                   pubs := [(''network.create.aws.done'',
                             plain_text (JObject (json_fields
                               ((testEvent ''network.create.aws'' False)
                                  \<lparr>NetworkAWSID := ''subnet-00000000'',
                                    AvailabilityZone := ''eu-west-1a''\<rparr>))))]\<rparr>)"
    by (simp add: Complete_def Marshal_def sample_codec_def Publish_def world0_def testEvent_def)
  finally show ?thesis .
qed




text \<open>
  The two paths on which serializing fails are no better: \<open>Error\<close> panics before it
  publishes, and \<open>Complete\<close> publishes on both topics, the error first and then empty
  data on the done topic.
\<close>

lemma complete_falls_through:
  assumes "Marshal js n = Inl e"
    and "Marshal js (n\<lparr>ErrorMessage := Error_msg e\<rparr>) = Inr d"
  shows "Complete js n w =
           (Returned (n\<lparr>ErrorMessage := Error_msg e\<rparr>),
            w\<lparr>pubs := pubs w @ [(subject n @ ''.error'', d), (subject n @ ''.done'', [])]\<rparr>)"
  using assms by (simp add: Complete_def Error_def Let_def Publish_def)

lemma error_publication_panics:
  "eventHandler failing_env ''network.create.aws'' ''{}'' world0
     = Some (Panicked ''unsupported value'', world0)"
proof -
  have d: "Unmarshal failing_codec ''{}'' (New ''network.create.aws'' ''{}'')
             = (None, New ''network.create.aws'' ''{}'')"
    by (simp add: Unmarshal_def failing_codec_def sample_codec_def sample_parse_def)
  have v: "Validate (New ''network.create.aws'' ''{}'') = Some ErrDatacenterIDInvalid"
    by (simp add: Validate_def New_def)
  have e: "Error failing_codec ErrDatacenterIDInvalid (New ''network.create.aws'' ''{}'') world0
             = (Panicked ''unsupported value'', world0)"
    by (simp add: Error_def Marshal_def failing_codec_def sample_codec_def)
  show ?thesis
    by (simp add: eventHandler_cases d v e)
qed

subsection \<open>Panics\<close>









text \<open>
  Off the list of \<open>events\<close>, on a subject without a dot, \<open>parts[1]\<close> panics.
\<close>

lemma subject_without_dot_panics:
  "eventHandler sample_env ''ping'' valid_payload world0
     = Some (Panicked ''index out of range'', world0)"
proof -
  have v: "Validate (testEvent ''ping'' False) = None"
    by (simp add: Validate_def testEvent_def)
  have a: "action_of ''ping'' = None"
    by (simp add: action_of_def)
  show ?thesis
    by (simp add: eventHandler_cases sample_decode_valid v a)
qed

section \<open>The wire schema\<close>

lemma overlay_fields:
  "overlay js (json_fields e) None (New subj b) = (None, e\<lparr>subject := subj, body := b\<rparr>)"
  by (cases e)
     (simp add: json_fields_def find_field_def field_names_def store_def set_string_def New_def)

lemma field_order:
  "map fst (json_fields e) =
     filter (\<lambda>k. (k = ''network_aws_id'' \<longrightarrow> NetworkAWSID e \<noteq> '''')
                \<and> (k = ''error_message'' \<longrightarrow> ErrorMessage e \<noteq> '''')) field_names"
  by (simp add: json_fields_def field_names_def)

lemma fields_ignore_routing:
  "json_fields (e\<lparr>subject := s, body := b\<rparr>) = json_fields e"
  by (simp add: json_fields_def)

text \<open>
  Claim C7, as the code has it. Let a payload be the serialization of an envelope \<open>e\<close>,
  read back by the library as the object that was written. Then it decodes without
  error, the decoded envelope has the wire fields of \<open>e\<close>, and serializing it again
  gives the same bytes; the members written are the field names of the struct in
  declaration order, \<open>network_aws_id\<close> and \<open>error_message\<close> left out exactly when
  empty.
\<close>

theorem canonical_payload_roundtrip:
  assumes ser: "Marshal js e = Inr b"
    and par: "json_parse js b = Inr (JObject (json_fields e))"
  shows "\<exists>e'. Unmarshal js b (New subj b) = (None, e')
            \<and> wire_eq e' e
            \<and> Marshal js e' = Inr b
            \<and> map fst (json_fields e') =
                filter (\<lambda>k. (k = ''network_aws_id'' \<longrightarrow> NetworkAWSID e \<noteq> '''')
                           \<and> (k = ''error_message'' \<longrightarrow> ErrorMessage e \<noteq> '''')) field_names"
proof -
  let ?e' = "e\<lparr>subject := subj, body := b\<rparr>"
  from par have u: "Unmarshal js b (New subj b) = (None, ?e')"
    by (simp add: Unmarshal_def overlay_fields)
  have w: "wire_eq ?e' e" by (simp add: wire_eq_def)
  from ser have m: "Marshal js ?e' = Inr b"
    by (simp add: Marshal_def fields_ignore_routing)
  have f: "map fst (json_fields ?e') =
                filter (\<lambda>k. (k = ''network_aws_id'' \<longrightarrow> NetworkAWSID e \<noteq> '''')
                           \<and> (k = ''error_message'' \<longrightarrow> ErrorMessage e \<noteq> '''')) field_names"
    using field_order[of ?e'] by simp
  from u w m f show ?thesis by blast
qed

lemma sample_parse_valid:
  "json_parse sample_codec valid_payload
     = Inr (JObject (json_fields (testEvent ''network.delete.aws'' False)))"
  by (simp add: sample_codec_def sample_parse_def valid_payload_def valid_object_def
      json_fields_def testEvent_def)

theorem canonical_payload_roundtrip_witness:
  "Marshal sample_codec (testEvent ''network.delete.aws'' False) = Inr valid_payload
   \<and> json_parse sample_codec valid_payload
        = Inr (JObject (json_fields (testEvent ''network.delete.aws'' False)))
   \<and> (\<exists>e'. Unmarshal sample_codec valid_payload (New ''network.create.aws'' valid_payload)
              = (None, e')
            \<and> wire_eq e' (testEvent ''network.delete.aws'' False)
            \<and> Marshal sample_codec e' = Inr valid_payload
            \<and> map fst (json_fields e') =
                filter (\<lambda>k. (k = ''network_aws_id''
                               \<longrightarrow> NetworkAWSID (testEvent ''network.delete.aws'' False) \<noteq> '''')
                           \<and> (k = ''error_message''
                               \<longrightarrow> ErrorMessage (testEvent ''network.delete.aws'' False) \<noteq> ''''))
                  field_names)"
  using canonical_payload_roundtrip[OF sample_marshal_valid sample_parse_valid,
          of "''network.create.aws''"]
        sample_marshal_valid[of "''network.delete.aws''"] sample_parse_valid
  by blast

text \<open>
  Claim C7 as it is worded fails: the payload \<open>{}\<close> decodes successfully, and
  serializing the decoded envelope gives eleven members, not the two bytes received.
\<close>

theorem roundtrip_empty_object_counterexample:
  \<open>Unmarshal sample_codec ''{}'' (New ''network.create.aws'' ''{}'')
     = (None, New ''network.create.aws'' ''{}'')
   \<and> Marshal sample_codec (New ''network.create.aws'' ''{}'')
     = Inr ''{"_uuid":"","_batch_id":"","_type":"","datacenter_region":"","datacenter_secret":"","datacenter_token":"","vpc_id":"","name":"","range":"","is_public":false,"availability_zone":""}''
   \<and> Marshal sample_codec (New ''network.create.aws'' ''{}'') \<noteq> Inr ''{}''\<close>
proof (intro conjI)
  show \<open>Unmarshal sample_codec ''{}'' (New ''network.create.aws'' ''{}'')
     = (None, New ''network.create.aws'' ''{}'')\<close>
    by (rule sample_decode_empty)
  show m: \<open>Marshal sample_codec (New ''network.create.aws'' ''{}'')
     = Inr ''{"_uuid":"","_batch_id":"","_type":"","datacenter_region":"","datacenter_secret":"","datacenter_token":"","vpc_id":"","name":"","range":"","is_public":false,"availability_zone":""}''\<close>
    by (simp add: Marshal_def sample_codec_def json_fields_def New_def quoted_def)
  show \<open>Marshal sample_codec (New ''network.create.aws'' ''{}'') \<noteq> Inr ''{}''\<close>
    by (simp add: m)
qed

text \<open>
  Claim C10. Once the payload has decoded, and provided serializing succeeds, the one
  publication of a handler that returns, on the done or on the error topic, is the
  serialization of an envelope whose members include \<open>datacenter_region\<close>,
  \<open>datacenter_secret\<close> and \<open>datacenter_token\<close> with the values decoded from the
  request, whatever they are: these members are never left out.
\<close>

theorem credentials_echoed:
  assumes ser: "\<forall>ev. \<exists>d. Marshal (json_lib env) ev = Inr d"
    and dec: "Unmarshal (json_lib env) data (New subj data) = (None, n)"
    and run: "eventHandler env subj data w = Some (Returned (), w')"
  shows "\<exists>topic d ev'. pubs w' = pubs w @ [(topic, d)]
           \<and> (topic = subj @ ''.done'' \<or> topic = subj @ ''.error'')
           \<and> json_render (json_lib env) (JObject (json_fields ev')) = Inr d
           \<and> (''datacenter_region'', JString (DatacenterRegion n)) \<in> set (json_fields ev')
           \<and> (''datacenter_secret'', JString (DatacenterAccessKey n)) \<in> set (json_fields ev')
           \<and> (''datacenter_token'', JString (DatacenterAccessToken n)) \<in> set (json_fields ev')"
proof -
  from returned_after_decode[OF ser dec run] obtain topic d ev' where
    p: "pubs w' = pubs w @ [(topic, d)]"
    and t: "topic = subj @ ''.done'' \<or> topic = subj @ ''.error''"
    and m: "Marshal (json_lib env) ev' = Inr d"
    and c: "DatacenterRegion ev' = DatacenterRegion n"
           "DatacenterAccessKey ev' = DatacenterAccessKey n"
           "DatacenterAccessToken ev' = DatacenterAccessToken n"
    by blast
  from m have r: "json_render (json_lib env) (JObject (json_fields ev')) = Inr d"
    by (simp add: Marshal_def)
  from creds_in_fields[of ev'] c
  have "(''datacenter_region'', JString (DatacenterRegion n)) \<in> set (json_fields ev')
      \<and> (''datacenter_secret'', JString (DatacenterAccessKey n)) \<in> set (json_fields ev')
      \<and> (''datacenter_token'', JString (DatacenterAccessToken n)) \<in> set (json_fields ev')"
    by simp
  with p t r show ?thesis by blast
qed

theorem credentials_echoed_witness:
  "(\<forall>ev. \<exists>d. Marshal (json_lib sample_env) ev = Inr d)
   \<and> Unmarshal (json_lib sample_env) valid_payload (New ''network.create.aws'' valid_payload)
       = (None, testEvent ''network.create.aws'' False)
   \<and> eventHandler sample_env ''network.create.aws'' valid_payload world0 =
       Some (Returned (),
             world0\<lparr>calls := [CreateSubnetCall ''vpc-0000000'' ''10.0.0.0/16'' ''''],
                   pubs := [(''network.create.aws.done'',
                             plain_text (JObject (json_fields
                               ((testEvent ''network.create.aws'' False)
                                  \<lparr>NetworkAWSID := ''subnet-00000000'',
                                    AvailabilityZone := ''eu-west-1a''\<rparr>))))]\<rparr>)
   \<and> (\<exists>topic d ev'.
          pubs (world0\<lparr>calls := [CreateSubnetCall ''vpc-0000000'' ''10.0.0.0/16'' ''''],
                   pubs := [(''network.create.aws.done'',
                             plain_text (JObject (json_fields
                               ((testEvent ''network.create.aws'' False)
                                  \<lparr>NetworkAWSID := ''subnet-00000000'',
                                    AvailabilityZone := ''eu-west-1a''\<rparr>))))]\<rparr>)
            = pubs world0 @ [(topic, d)]
           \<and> (topic = ''network.create.aws'' @ ''.done'' \<or> topic = ''network.create.aws'' @ ''.error'')
           \<and> json_render (json_lib sample_env) (JObject (json_fields ev')) = Inr d
           \<and> (''datacenter_region'', JString (DatacenterRegion (testEvent ''network.create.aws'' False)))
                \<in> set (json_fields ev')
           \<and> (''datacenter_secret'', JString (DatacenterAccessKey (testEvent ''network.create.aws'' False)))
                \<in> set (json_fields ev')
           \<and> (''datacenter_token'', JString (DatacenterAccessToken (testEvent ''network.create.aws'' False)))
                \<in> set (json_fields ev'))"
proof -
  have dec: "Unmarshal (json_lib sample_env) valid_payload (New ''network.create.aws'' valid_payload)
       = (None, testEvent ''network.create.aws'' False)"
    by (simp add: sample_decode_valid)
  from credentials_echoed[OF sample_serializes dec sample_handler_create]
       sample_serializes dec sample_handler_create
  show ?thesis by blast
qed

subsection \<open>A validation failure on the sample service\<close>




end
